theory Spec2Isabelle
  imports Main
begin

section \<open>Python values\<close>

text \<open>
  The scoring code of \<^verbatim>\<open>src/score_new_jobs.py\<close> works on what \<^verbatim>\<open>json.loads\<close> returns:
  \<^verbatim>\<open>None\<close>, booleans, unbounded integers, floats, strings, lists and dictionaries.
  A Python \<^verbatim>\<open>str\<close> is a list of code points; the embedding uses \<open>string\<close> with one
  \<open>char\<close> per code point, so it covers the code points below 256.
  A float is either a finite binary fraction \<open>m * 2^e\<close> or one of the three special
  values; \<^verbatim>\<open>json.loads\<close> returns the infinities for \<^verbatim>\<open>1e999\<close> and \<^verbatim>\<open>Infinity\<close>
  and the not-a-number value for \<^verbatim>\<open>NaN\<close>.
  A dictionary is an association list in insertion order, looked up by key.
\<close>

datatype pyfloat = Finite int int | PosInf | NegInf | NaN

datatype json =
    JNull
  | JBool bool
  | JInt int
  | JFloat pyfloat
  | JStr string
  | JList "json list"
  | JDict "(string \<times> json) list"

type_synonym pydict = "(string \<times> json) list"

datatype pyexc =
    ValueError
  | TypeError
  | OverflowError
  | AttributeError
  | KeyError
  | FileNotFoundError
  | UnicodeDecodeError
  | RuntimeError
  | TransportError

text \<open>\<^verbatim>\<open>d.get(k)\<close>: the value, or \<^verbatim>\<open>None\<close> when the key is absent.\<close>

definition dict_get :: "pydict \<Rightarrow> string \<Rightarrow> json" where
  "dict_get d k = (case map_of d k of None \<Rightarrow> JNull | Some v \<Rightarrow> v)"

text \<open>\<^verbatim>\<open>d.get(k, default)\<close>.\<close>

definition dict_get_default :: "pydict \<Rightarrow> string \<Rightarrow> json \<Rightarrow> json" where
  "dict_get_default d k dflt = (case map_of d k of None \<Rightarrow> dflt | Some v \<Rightarrow> v)"

text \<open>Truth value of an object, as \<^verbatim>\<open>if x\<close>, \<^verbatim>\<open>not x\<close> and \<^verbatim>\<open>x or y\<close> test it.\<close>

fun py_truthy :: "json \<Rightarrow> bool" where
  "py_truthy JNull = False"
| "py_truthy (JBool b) = b"
| "py_truthy (JInt i) = (i \<noteq> 0)"
| "py_truthy (JFloat (Finite m e)) = (m \<noteq> 0)"
| "py_truthy (JFloat _) = True"
| "py_truthy (JStr s) = (s \<noteq> [])"
| "py_truthy (JList xs) = (xs \<noteq> [])"
| "py_truthy (JDict d) = (d \<noteq> [])"

definition py_or :: "json \<Rightarrow> json \<Rightarrow> json" where
  "py_or a b = (if py_truthy a then a else b)"

subsection \<open>Strings\<close>

text \<open>
  The characters \<^verbatim>\<open>str.strip()\<close>, \<^verbatim>\<open>int()\<close> and the pattern \<^verbatim>\<open>\s\<close> treat as white
  space, among the code points below 256: tab to carriage return, the four separators
  28 to 31, the space, NEL (133) and the no-break space (160).
\<close>

definition py_isspace :: "char \<Rightarrow> bool" where
  "py_isspace c =
     (let n = (of_char c :: nat)
      in (9 \<le> n \<and> n \<le> 13) \<or> (28 \<le> n \<and> n \<le> 32) \<or> n = 133 \<or> n = 160)"

definition py_lstrip :: "string \<Rightarrow> string" where
  "py_lstrip s = dropWhile py_isspace s"

definition py_rstrip :: "string \<Rightarrow> string" where
  "py_rstrip s = rev (dropWhile py_isspace (rev s))"

definition py_strip :: "string \<Rightarrow> string" where
  "py_strip s = py_rstrip (py_lstrip s)"

fun starts_with :: "string \<Rightarrow> string \<Rightarrow> bool" where
  "starts_with [] t = True"
| "starts_with (k # ks) [] = False"
| "starts_with (k # ks) (c # cs) = (k = c \<and> starts_with ks cs)"

text \<open>\<^verbatim>\<open>kw in text\<close> for two strings.\<close>

fun contains :: "string \<Rightarrow> string \<Rightarrow> bool" where
  "contains kw [] = (kw = [])"
| "contains kw (c # cs) = (starts_with kw (c # cs) \<or> contains kw cs)"

fun join_with :: "string \<Rightarrow> string list \<Rightarrow> string" where
  "join_with sep [] = []"
| "join_with sep [x] = x"
| "join_with sep (x # y # ys) = x @ sep @ join_with sep (y # ys)"

definition is_digit :: "char \<Rightarrow> bool" where
  "is_digit c = (let n = (of_char c :: nat) in 48 \<le> n \<and> n \<le> 57)"

definition digit_val :: "char \<Rightarrow> int" where
  "digit_val c = int (of_char c) - 48"

text \<open>
  \<^verbatim>\<open>int(s)\<close> for a string, base ten: surrounding white space is dropped, one sign is
  allowed, then decimal digits, where single underscores may stand between digits.
  Anything else is a \<^verbatim>\<open>ValueError\<close> (\<open>None\<close> here).
\<close>

fun py_digits :: "int \<Rightarrow> string \<Rightarrow> int option" where
  "py_digits acc [] = Some acc"
| "py_digits acc (c # cs) =
     (if is_digit c then py_digits (10 * acc + digit_val c) cs
      else if c = CHR ''_'' then
        (case cs of
           [] \<Rightarrow> None
         | d # ds \<Rightarrow> if is_digit d then py_digits (10 * acc + digit_val d) ds else None)
      else None)"

definition py_unsigned :: "string \<Rightarrow> int option" where
  "py_unsigned s =
     (case s of
        [] \<Rightarrow> None
      | c # cs \<Rightarrow> if is_digit c then py_digits (digit_val c) cs else None)"

definition py_int_of_str :: "string \<Rightarrow> int option" where
  "py_int_of_str s =
     (case py_strip s of
        [] \<Rightarrow> None
      | c # cs \<Rightarrow>
          if c = CHR ''-'' then map_option uminus (py_unsigned cs)
          else if c = CHR ''+'' then py_unsigned cs
          else py_unsigned (c # cs))"

text \<open>
  \<^verbatim>\<open>int(x)\<close> of a float truncates towards zero; it raises \<^verbatim>\<open>ValueError\<close> on
  not-a-number and \<^verbatim>\<open>OverflowError\<close> on an infinity.
\<close>

definition py_trunc :: "int \<Rightarrow> int \<Rightarrow> int" where
  "py_trunc m e =
     (if 0 \<le> e then m * 2 ^ nat e
      else if 0 \<le> m then m div 2 ^ nat (- e)
      else - ((- m) div 2 ^ nat (- e)))"

fun py_int :: "json \<Rightarrow> pyexc + int" where
  "py_int JNull = Inl TypeError"
| "py_int (JBool b) = Inr (if b then 1 else 0)"
| "py_int (JInt i) = Inr i"
| "py_int (JFloat (Finite m e)) = Inr (py_trunc m e)"
| "py_int (JFloat NaN) = Inl ValueError"
| "py_int (JFloat PosInf) = Inl OverflowError"
| "py_int (JFloat NegInf) = Inl OverflowError"
| "py_int (JStr s) = (case py_int_of_str s of None \<Rightarrow> Inl ValueError | Some i \<Rightarrow> Inr i)"
| "py_int (JList xs) = Inl TypeError"
| "py_int (JDict d) = Inl TypeError"

section \<open>Normalising a scorer response\<close>

text \<open>
  \<^verbatim>\<open>run_single_scorer\<close>, lines 261 to 269 (and \<^verbatim>\<open>run_pipeline\<close> of
  \<^verbatim>\<open>src/pipeline.py\<close>, lines 200 to 208, which is the same text):
  \<^verbatim>\<open>
    fit_score_int = score.get("fit_score")
    if fit_score_int is None:
        fit_score_int = score.get("score") or score.get("FitScore") or score.get("fitScore")
    try:
        fit_score_int = int(fit_score_int) if fit_score_int is not None else 3
    except (ValueError, TypeError):
        fit_score_int = 3
    fit_score_int = max(1, min(5, fit_score_int))
  \<close>
  The handler catches \<^verbatim>\<open>ValueError\<close> and \<^verbatim>\<open>TypeError\<close> only; any other exception of
  \<^verbatim>\<open>int()\<close> leaves the block.
\<close>

definition raw_fit_score :: "pydict \<Rightarrow> json" where
  "raw_fit_score score =
     (let v = dict_get score ''fit_score''
      in if v = JNull
         then py_or (py_or (dict_get score ''score'') (dict_get score ''FitScore''))
                (dict_get score ''fitScore'')
         else v)"

definition int_or_default :: "json \<Rightarrow> pyexc + int" where
  "int_or_default v =
     (if v \<noteq> JNull then
        (case py_int v of
           Inr n \<Rightarrow> Inr n
         | Inl ValueError \<Rightarrow> Inr 3
         | Inl TypeError \<Rightarrow> Inr 3
         | Inl e \<Rightarrow> Inl e)
      else Inr 3)"

definition normalize_fit_score :: "pydict \<Rightarrow> pyexc + int" where
  "normalize_fit_score score =
     (case int_or_default (raw_fit_score score) of
        Inl e \<Rightarrow> Inl e
      | Inr n \<Rightarrow> Inr (max 1 (min 5 n)))"

text \<open>
  Lines 271 to 285:
  \<^verbatim>\<open>
    next_action_raw = score.get("next_action", "").strip() if isinstance(score.get("next_action"), str) else None
    valid_actions = {"Apply Now", "Apply", "Network First", "Skip"}
    if next_action_raw not in valid_actions:
        if fit_score_int == 5: next_action_target = "Apply Now"
        elif fit_score_int == 4: next_action_target = "Apply"
        elif fit_score_int in (3, 2): next_action_target = "Network First"
        else: next_action_target = "Skip"
    else:
        next_action_target = next_action_raw
  \<close>
\<close>

definition valid_actions :: "string set" where
  "valid_actions = {''Apply Now'', ''Apply'', ''Network First'', ''Skip''}"

definition action_of_fit :: "int \<Rightarrow> string" where
  "action_of_fit fit_score_int =
     (if fit_score_int = 5 then ''Apply Now''
      else if fit_score_int = 4 then ''Apply''
      else if fit_score_int = 3 \<or> fit_score_int = 2 then ''Network First''
      else ''Skip'')"

definition next_action_raw :: "pydict \<Rightarrow> string option" where
  "next_action_raw score =
     (case dict_get score ''next_action'' of
        JStr s \<Rightarrow> Some (py_strip s)
      | _ \<Rightarrow> None)"

definition normalize_next_action :: "pydict \<Rightarrow> int \<Rightarrow> string" where
  "normalize_next_action score fit_score_int =
     (case next_action_raw score of
        None \<Rightarrow> action_of_fit fit_score_int
      | Some a \<Rightarrow> if a \<notin> valid_actions then action_of_fit fit_score_int else a)"

section \<open>The environment and the effects\<close>

text \<open>
  What the program takes from outside the repository is a parameter of the model:
  the standard library's \<^verbatim>\<open>json.loads\<close> (\<open>None\<close> when it raises) and \<^verbatim>\<open>json.dumps\<close>
  in the three configurations the code uses, \<^verbatim>\<open>str()\<close> and \<^verbatim>\<open>float()\<close>, the text of an
  exception, \<^verbatim>\<open>html.unescape\<close>, SHA-256, the clock, the two prompt constants of \<^verbatim>\<open>src/prompts.py\<close>, the
  prompt file of the file-defined engine, the settings, and the two network services.
  The n-th call of \<^verbatim>\<open>request_json\<close> answers with a text or raises; the n-th call of
  \<^verbatim>\<open>update_record\<close> succeeds (\<open>None\<close>) or raises; the n-th call of \<^verbatim>\<open>list_records\<close>
  returns records or raises, and so does \<^verbatim>\<open>find_one\<close> for the candidate profile.
  \<^verbatim>\<open>build_flags_from_jd\<close> only feeds the prompt text; it is taken as a function of the
  cleaned text.
\<close>

record job_record =
  rec_id :: string
  rec_fields :: pydict

record env =
  json_loads :: "string \<Rightarrow> json option"
  json_dumps :: "json \<Rightarrow> string"
  json_dumps_compact :: "json \<Rightarrow> string"
  json_dumps_sorted :: "json \<Rightarrow> string"
  py_str :: "json \<Rightarrow> string"
  py_float :: "json \<Rightarrow> pyexc + json"
  exc_str :: "pyexc \<Rightarrow> string"
  html_unescape :: "string \<Rightarrow> string"
  sha256_hexdigest :: "string \<Rightarrow> string"
  now_isoformat :: string
  JOB_SCORER_PROMPT_V1 :: string
  JOB_PARSE_PROMPT_with :: "string \<Rightarrow> string"
  perfecter_prompt_file :: "pyexc + string"
  build_flags_from_jd :: "string \<Rightarrow> json"
  OPENAI_MODEL_PARSE :: json
  OPENAI_MODEL_SCORE :: json
  AIRTABLE_TABLE_JOBS :: string
  AIRTABLE_TABLE_CANDIDATE :: string
  generate_run_id :: string
  list_records :: "nat \<Rightarrow> string \<Rightarrow> nat \<Rightarrow> string option \<Rightarrow> pyexc + job_record list"
  find_one :: "string \<Rightarrow> pyexc + job_record option"
  request_json :: "nat \<Rightarrow> json \<Rightarrow> string \<Rightarrow> pyexc + string"
  update_record :: "nat \<Rightarrow> string \<Rightarrow> string \<Rightarrow> pydict \<Rightarrow> pyexc option"

text \<open>
  The effects of a run, in order: the calls of the language model (the place that
  calls, line 570 for the job structurer and lines 240 and 253 for a scorer, with the
  model and the prompt), the calls of the record store, and the \<^verbatim>\<open>FIELD_DROP\<close> lines printed. The other print
  statements decide nothing and are left out.
\<close>

datatype store_call =
    ListRecords string nat "string option"
  | FindOne string
  | UpdateRecord string string pydict bool

datatype call_site = Structurer | Scorer

record world =
  llm_calls :: "(call_site \<times> json \<times> string) list"
  store_calls :: "store_call list"
  printed :: "string list"

definition world0 :: world where
  "world0 = \<lparr>llm_calls = [], store_calls = [], printed = []\<rparr>"

definition n_updates :: "world \<Rightarrow> nat" where
  "n_updates w = length (filter (\<lambda>c. case c of UpdateRecord _ _ _ _ \<Rightarrow> True | _ \<Rightarrow> False) (store_calls w))"

definition n_lists :: "world \<Rightarrow> nat" where
  "n_lists w = length (filter (\<lambda>c. case c of ListRecords _ _ _ \<Rightarrow> True | _ \<Rightarrow> False) (store_calls w))"

definition call_llm ::
  "env \<Rightarrow> call_site \<Rightarrow> json \<Rightarrow> string \<Rightarrow> world \<Rightarrow> (pyexc + string) \<times> world" where
  "call_llm E site model prompt w =
     (request_json E (length (llm_calls w)) model prompt,
      w\<lparr>llm_calls := llm_calls w @ [(site, model, prompt)]\<rparr>)"

definition call_update :: "env \<Rightarrow> string \<Rightarrow> pydict \<Rightarrow> world \<Rightarrow> pyexc option \<times> world" where
  "call_update E record_id payload w =
     (let r = update_record E (n_updates w) (AIRTABLE_TABLE_JOBS E) record_id payload
      in (r, w\<lparr>store_calls :=
                 store_calls w @ [UpdateRecord (AIRTABLE_TABLE_JOBS E) record_id payload (r = None)]\<rparr>))"

definition call_list_records ::
  "env \<Rightarrow> string \<Rightarrow> nat \<Rightarrow> string option \<Rightarrow> world \<Rightarrow> (pyexc + job_record list) \<times> world" where
  "call_list_records E table max_records formula w =
     (list_records E (n_lists w) table max_records formula,
      w\<lparr>store_calls := store_calls w @ [ListRecords table max_records formula]\<rparr>)"

definition call_find_one :: "env \<Rightarrow> string \<Rightarrow> world \<Rightarrow> (pyexc + job_record option) \<times> world" where
  "call_find_one E table w =
     (find_one E table, w\<lparr>store_calls := store_calls w @ [FindOne table]\<rparr>)"

section \<open>Parsing a model response\<close>

text \<open>
  \<^verbatim>\<open>utils.safe_parse_json\<close>: the value of \<^verbatim>\<open>json.loads(text)\<close> whatever it is; when
  that raises, the first span \<^verbatim>\<open>{...}\<close> or \<^verbatim>\<open>[...]\<close> the pattern
  \<^verbatim>\<open>(\{.*\}|\[.*\])\<close> finds (dot matches newlines, greedy) is parsed, a list is wrapped
  under \<^verbatim>\<open>"_list"\<close>, a dictionary is returned, anything else and every failure is
  \<^verbatim>\<open>None\<close>.
\<close>

definition upto_last :: "char \<Rightarrow> string \<Rightarrow> string" where
  "upto_last x cs = rev (dropWhile (\<lambda>c. c \<noteq> x) (rev cs))"

fun extract_json_span :: "string \<Rightarrow> string option" where
  "extract_json_span [] = None"
| "extract_json_span (c # cs) =
     (if c = CHR ''{'' \<and> CHR ''}'' \<in> set cs then Some (c # upto_last (CHR ''}'') cs)
      else if c = CHR ''['' \<and> CHR '']'' \<in> set cs then Some (c # upto_last (CHR '']'') cs)
      else extract_json_span cs)"

definition safe_parse_json :: "env \<Rightarrow> string \<Rightarrow> json" where
  "safe_parse_json E text =
     (case json_loads E text of
        Some v \<Rightarrow> v
      | None \<Rightarrow>
          (case extract_json_span text of
             None \<Rightarrow> JNull
           | Some g \<Rightarrow>
               (case json_loads E g of
                  None \<Rightarrow> JNull
                | Some (JList xs) \<Rightarrow> JDict [(''_list'', JList xs)]
                | Some (JDict d) \<Rightarrow> JDict d
                | Some _ \<Rightarrow> JNull)))"

section \<open>The scorer engine\<close>

definition load_scorer_prompt :: "env \<Rightarrow> string \<Rightarrow> pyexc + string" where
  "load_scorer_prompt E engine_name =
     (if engine_name = ''v1'' then Inr (JOB_SCORER_PROMPT_V1 E)
      else if engine_name = ''perfecter_v1'' then perfecter_prompt_file E
      else Inl ValueError)"

definition get_prompt_hash :: "env \<Rightarrow> string \<Rightarrow> string" where
  "get_prompt_hash E prompt_text = take 16 (sha256_hexdigest E prompt_text)"

text \<open>\<^verbatim>\<open>x[k]\<close> for a string key.\<close>

definition py_subscript :: "json \<Rightarrow> string \<Rightarrow> pyexc + json" where
  "py_subscript x k =
     (case x of
        JDict d \<Rightarrow> (case map_of d k of None \<Rightarrow> Inl KeyError | Some v \<Rightarrow> Inr v)
      | _ \<Rightarrow> Inl TypeError)"

definition required_keys :: "string set" where
  "required_keys =
     {''fit_score'', ''next_action'', ''fit_reasons'', ''gaps_risks'',
      ''non_obvious_matches'', ''keywords_to_tailor_resume'',
      ''questions_to_verify'', ''confidence'', ''needs_human_input'', ''debug''}"

text \<open>
  \<^verbatim>\<open>not score or not required_keys.issubset(score.keys())\<close>: a false value is invalid
  without a look at its keys; a true value that is not a dictionary has no \<^verbatim>\<open>keys\<close>.
\<close>

definition invalid_score :: "json \<Rightarrow> pyexc + bool" where
  "invalid_score score =
     (if \<not> py_truthy score then Inr True
      else (case score of
              JDict d \<Rightarrow> Inr (\<not> required_keys \<subseteq> fst ` set d)
            | _ \<Rightarrow> Inl AttributeError))"

definition strict_suffix :: string where
  "strict_suffix = ''\<newline>\<newline>You produced invalid JSON or missing keys. Output STRICT JSON ONLY matching the exact schema.''"

record scored =
  engine :: string
  fit_score :: int
  next_action :: string
  confidence :: json
  raw_score :: pydict
  fit_reasons :: json
  gaps_risks :: json
  needs_human_input :: json

datatype single_result = InvalidModelOutput string | ScoredResult scored

definition normalize_confidence :: "env \<Rightarrow> pydict \<Rightarrow> pyexc + json" where
  "normalize_confidence E score =
     (let c = dict_get_default score ''confidence'' (JStr ''N/A'')
      in if c \<noteq> JStr ''N/A'' then
           (case py_float E c of
              Inr f \<Rightarrow> Inr f
            | Inl ValueError \<Rightarrow> Inr (JStr ''N/A'')
            | Inl TypeError \<Rightarrow> Inr (JStr ''N/A'')
            | Inl e \<Rightarrow> Inl e)
         else Inr c)"

text \<open>Lines 261 to 306: the validated response becomes the result.\<close>

definition score_to_result :: "env \<Rightarrow> string \<Rightarrow> json \<Rightarrow> pyexc + single_result" where
  "score_to_result E scorer_engine score =
     (case score of
        JDict d \<Rightarrow>
          (case normalize_fit_score d of
             Inl e \<Rightarrow> Inl e
           | Inr fit_score_int \<Rightarrow>
               (case normalize_confidence E d of
                  Inl e \<Rightarrow> Inl e
                | Inr conf \<Rightarrow>
                    Inr (ScoredResult
                      \<lparr>engine = scorer_engine,
                       fit_score = fit_score_int,
                       next_action = normalize_next_action d fit_score_int,
                       confidence = conf,
                       raw_score = d,
                       fit_reasons = dict_get_default d ''fit_reasons'' (JList []),
                       gaps_risks = dict_get_default d ''gaps_risks'' (JList []),
                       needs_human_input = dict_get_default d ''needs_human_input'' (JList [])\<rparr>)))
      | _ \<Rightarrow> Inl AttributeError)"

text \<open>
  \<^verbatim>\<open>run_single_scorer\<close>, lines 236 to 259: the prompt is loaded, the input envelope is
  appended, the model is asked; an invalid answer is asked for once more with the strict
  instruction appended, and a second invalid answer is the error result.
\<close>

definition run_single_scorer ::
  "env \<Rightarrow> string \<Rightarrow> json \<Rightarrow> world \<Rightarrow> (pyexc + single_result) \<times> world" where
  "run_single_scorer E scorer_engine scorer_input w =
     (case load_scorer_prompt E scorer_engine of
        Inl e \<Rightarrow> (Inl e, w)
      | Inr prompt \<Rightarrow>
          (let full_prompt = prompt @ ''\<newline>\<newline>INPUT_JSON:\<newline>'' @ json_dumps E scorer_input
           in case py_subscript scorer_input ''runtime'' of
                Inl e \<Rightarrow> (Inl e, w)
              | Inr runtime \<Rightarrow>
                  (case py_subscript runtime ''model'' of
                     Inl e \<Rightarrow> (Inl e, w)
                   | Inr model \<Rightarrow>
                       (case py_subscript runtime ''temperature'' of
                          Inl e \<Rightarrow> (Inl e, w)
                        | Inr temperature \<Rightarrow>
                            (case call_llm E Scorer model full_prompt w of
                               (Inl e, w1) \<Rightarrow> (Inl e, w1)
                             | (Inr score_text, w1) \<Rightarrow>
                                 (let score = safe_parse_json E score_text
                                  in case invalid_score score of
                                       Inl e \<Rightarrow> (Inl e, w1)
                                     | Inr False \<Rightarrow> (score_to_result E scorer_engine score, w1)
                                     | Inr True \<Rightarrow>
                                         (case call_llm E Scorer model (full_prompt @ strict_suffix) w1 of
                                            (Inl e, w2) \<Rightarrow> (Inl e, w2)
                                          | (Inr score_text2, w2) \<Rightarrow>
                                              (let score2 = safe_parse_json E score_text2
                                               in case invalid_score score2 of
                                                    Inl e \<Rightarrow> (Inl e, w2)
                                                  | Inr True \<Rightarrow>
                                                      (Inr (InvalidModelOutput scorer_engine), w2)
                                                  | Inr False \<Rightarrow>
                                                      (score_to_result E scorer_engine score2, w2)))))))))"

section \<open>The text normalizer\<close>

text \<open>
  \<^verbatim>\<open>re.sub(pattern, repl, text)\<close> for a pattern that never matches the empty string:
  the text is read from the left; where the pattern matches, the replacement is written
  and reading goes on behind the match; elsewhere the character is copied. The pattern
  is given by its matcher: the length of the match that starts a text, if there is one.
\<close>

fun re_sub :: "(string \<Rightarrow> nat option) \<Rightarrow> string \<Rightarrow> nat \<Rightarrow> string \<Rightarrow> string" where
  "re_sub m repl skip [] = []"
| "re_sub m repl (Suc k) (c # cs) = re_sub m repl k cs"
| "re_sub m repl 0 (c # cs) =
     (case m (c # cs) of
        Some n \<Rightarrow> repl @ re_sub m repl (n - 1) cs
      | None \<Rightarrow> c # re_sub m repl 0 cs)"

definition ascii_lower :: "char \<Rightarrow> char" where
  "ascii_lower c =
     (let n = (of_char c :: nat) in if 65 \<le> n \<and> n \<le> 90 then char_of (n + 32) else c)"

text \<open>A literal of lower-case letters and punctuation under \<^verbatim>\<open>re.IGNORECASE\<close>.\<close>

definition ci_starts_with :: "string \<Rightarrow> string \<Rightarrow> bool" where
  "ci_starts_with p t = starts_with p (map ascii_lower (take (length p) t))"

text \<open>The index of the first \<^verbatim>\<open>>\<close> of a text.\<close>

definition index_gt :: "string \<Rightarrow> nat option" where
  "index_gt t = (if CHR ''>'' \<in> set t then Some (length (takeWhile (\<lambda>c. c \<noteq> CHR ''>'') t)) else None)"

fun find_ci :: "string \<Rightarrow> string \<Rightarrow> nat option" where
  "find_ci p [] = (if p = [] then Some 0 else None)"
| "find_ci p (c # cs) =
     (if ci_starts_with p (c # cs) then Some 0 else map_option Suc (find_ci p cs))"

text \<open>\<^verbatim>\<open><script[^>]*>.*?</script>\<close> and \<^verbatim>\<open><style[^>]*>.*?</style>\<close>, dot matching newlines.\<close>

definition m_block :: "string \<Rightarrow> string \<Rightarrow> string \<Rightarrow> nat option" where
  "m_block opening closing t =
     (if ci_starts_with opening t then
        (case index_gt (drop (length opening) t) of
           None \<Rightarrow> None
         | Some i \<Rightarrow>
             (case find_ci closing (drop (length opening + i + 1) t) of
                None \<Rightarrow> None
              | Some j \<Rightarrow> Some (length opening + i + 1 + j + length closing)))
      else None)"

text \<open>\<^verbatim>\<open><img[^>]*>\<close> and \<^verbatim>\<open><li[^>]*>\<close>.\<close>

definition m_open_tag :: "string \<Rightarrow> string \<Rightarrow> nat option" where
  "m_open_tag opening t =
     (if ci_starts_with opening t then
        map_option (\<lambda>i. length opening + i + 1) (index_gt (drop (length opening) t))
      else None)"

text \<open>\<^verbatim>\<open><br\s*/?>\<close>.\<close>

definition m_br :: "string \<Rightarrow> nat option" where
  "m_br t =
     (if ci_starts_with ''<br'' t then
        (let ws = takeWhile py_isspace (drop 3 t);
             r = drop (3 + length ws) t
         in case r of
              c # r' \<Rightarrow>
                if c = CHR ''>'' then Some (3 + length ws + 1)
                else if c = CHR ''/'' then
                  (case r' of
                     d # _ \<Rightarrow> if d = CHR ''>'' then Some (3 + length ws + 2) else None
                   | [] \<Rightarrow> None)
                else None
            | [] \<Rightarrow> None)
      else None)"

text \<open>\<^verbatim>\<open></li>\<close>.\<close>

definition m_literal :: "string \<Rightarrow> string \<Rightarrow> nat option" where
  "m_literal p t = (if ci_starts_with p t then Some (length p) else None)"

text \<open>\<^verbatim>\<open><[^>]+>\<close>.\<close>

definition m_any_tag :: "string \<Rightarrow> nat option" where
  "m_any_tag t =
     (case t of
        c # r \<Rightarrow>
          if c = CHR ''<'' then
            (case index_gt r of
               None \<Rightarrow> None
             | Some i \<Rightarrow> if 1 \<le> i then Some (i + 2) else None)
          else None
      | [] \<Rightarrow> None)"

text \<open>
  \<^verbatim>\<open>\n\s*\n+\<close>: a newline, then the white space that follows it up to its last newline.
\<close>

definition m_blank_lines :: "string \<Rightarrow> nat option" where
  "m_blank_lines t =
     (case t of
        c # r \<Rightarrow>
          if c = CHR ''\<newline>'' then
            (let ws = takeWhile py_isspace r
             in if CHR ''\<newline>'' \<in> set ws then Some (1 + length (upto_last (CHR ''\<newline>'') ws))
                else None)
          else None
      | [] \<Rightarrow> None)"

fun replace_crlf :: "string \<Rightarrow> string" where
  "replace_crlf [] = []"
| "replace_crlf [c] = [c]"
| "replace_crlf (c # d # cs) =
     (if c = CHR 0x0D \<and> d = CHR ''\<newline>'' then CHR ''\<newline>'' # replace_crlf cs
      else c # replace_crlf (d # cs))"

definition replace_cr :: "string \<Rightarrow> string" where
  "replace_cr s = map (\<lambda>c. if c = CHR 0x0D then CHR ''\<newline>'' else c) s"

text \<open>\<^verbatim>\<open>text.split('\n')\<close>.\<close>

fun split_lines :: "string \<Rightarrow> string list" where
  "split_lines [] = [[]]"
| "split_lines (c # cs) =
     (if c = CHR ''\<newline>'' then [] # split_lines cs
      else (case split_lines cs of
              l # ls \<Rightarrow> (c # l) # ls
            | [] \<Rightarrow> [[c]]))"

text \<open>\<^verbatim>\<open>clean_html_to_text\<close>, lines 343 to 370.\<close>

definition clean_html_to_text :: "env \<Rightarrow> string \<Rightarrow> string" where
  "clean_html_to_text E raw =
     (if raw = [] then []
      else
        (let t1 = re_sub (m_block ''<script'' ''</script>'') [] 0 raw;
             t2 = re_sub (m_block ''<style'' ''</style>'') [] 0 t1;
             t3 = re_sub (m_open_tag ''<img'') [] 0 t2;
             t4 = re_sub m_br ''\<newline>'' 0 t3;
             t5 = re_sub (m_open_tag ''<li'') ''- '' 0 t4;
             t6 = re_sub (m_literal ''</li>'') ''\<newline>'' 0 t5;
             t7 = re_sub m_any_tag [] 0 t6;
             t8 = html_unescape E t7;
             t9 = replace_cr (replace_crlf t8);
             lines = map py_strip (split_lines t9);
             t10 = join_with ''\<newline>'' lines;
             t11 = re_sub m_blank_lines ''\<newline>\<newline>'' 0 t10
         in py_strip t11))"

text \<open>
  A stand-in for \<^verbatim>\<open>html.unescape\<close> in examples: it decodes the references
  \<^verbatim>\<open>&amp;\<close>, \<^verbatim>\<open>&lt;\<close> and \<^verbatim>\<open>&gt;\<close> and copies everything else. The library function
  does the same on a text in which every \<^verbatim>\<open>&\<close> starts one of these three.
\<close>

fun unescape_basic :: "nat \<Rightarrow> string \<Rightarrow> string" where
  "unescape_basic skip [] = []"
| "unescape_basic (Suc k) (c # cs) = unescape_basic k cs"
| "unescape_basic 0 (c # cs) =
     (if starts_with ''&amp;'' (c # cs) then CHR ''&'' # unescape_basic 4 cs
      else if starts_with ''&lt;'' (c # cs) then CHR ''<'' # unescape_basic 3 cs
      else if starts_with ''&gt;'' (c # cs) then CHR ''>'' # unescape_basic 3 cs
      else c # unescape_basic 0 cs)"

section \<open>Arbitration between engines\<close>

definition py_lower_char :: "char \<Rightarrow> char" where
  "py_lower_char c =
     (let n = (of_char c :: nat)
      in if (65 \<le> n \<and> n \<le> 90) \<or> (192 \<le> n \<and> n \<le> 222 \<and> n \<noteq> 215)
         then char_of (n + 32) else c)"

definition py_lower :: "string \<Rightarrow> string" where
  "py_lower s = map py_lower_char s"

fun all_strs :: "json list \<Rightarrow> string list option" where
  "all_strs [] = Some []"
| "all_strs (JStr s # xs) = map_option ((#) s) (all_strs xs)"
| "all_strs (_ # xs) = None"

text \<open>
  \<^verbatim>\<open>" ".join(gaps_risks + needs_human_input).lower()\<close>: two lists are concatenated and
  every item must be a string; two strings are concatenated and their characters are
  joined; every other pair of values raises \<^verbatim>\<open>TypeError\<close>, at the sum or at the join.
\<close>

definition combined_text :: "json \<Rightarrow> json \<Rightarrow> pyexc + string" where
  "combined_text a b =
     (case (a, b) of
        (JList xs, JList ys) \<Rightarrow>
          (case all_strs (xs @ ys) of
             None \<Rightarrow> Inl TypeError
           | Some ss \<Rightarrow> Inr (py_lower (join_with '' '' ss)))
      | (JStr s, JStr t) \<Rightarrow> Inr (py_lower (join_with '' '' (map (\<lambda>c. [c]) (s @ t))))
      | _ \<Rightarrow> Inl TypeError)"

definition gate_keywords :: "string list" where
  "gate_keywords =
     [''clearance'', ''security clearance'', ''government''] @ [''travel'', ''relocation'', ''on-site'']"

text \<open>\<^verbatim>\<open>is_hard_gate_failure\<close>, lines 61 to 106.\<close>

definition is_hard_gate_failure :: "scored \<Rightarrow> string \<Rightarrow> pyexc + bool" where
  "is_hard_gate_failure result engine_name =
     (let debug = dict_get_default (raw_score result) ''debug'' (JDict [])
      in if engine_name = ''perfecter_v1'' then
           (case debug of
              JDict dbg \<Rightarrow>
                (let hard_gates_passed = dict_get_default dbg ''hard_gates_passed'' (JBool True);
                     hard_gate_fail_reasons = dict_get_default dbg ''hard_gate_fail_reasons'' (JList [])
                 in if \<not> py_truthy hard_gates_passed then Inr True
                    else if fit_score result = 1 \<and> py_truthy hard_gate_fail_reasons then Inr True
                    else Inr False)
            | _ \<Rightarrow> Inl AttributeError)
         else if engine_name = ''v1'' then
           (if fit_score result = 1 then
              (case combined_text (gaps_risks result) (needs_human_input result) of
                 Inl e \<Rightarrow> Inl e
               | Inr t \<Rightarrow> Inr (list_ex (\<lambda>kw. contains kw t) gate_keywords))
            else Inr False)
         else Inr False)"

text \<open>\<^verbatim>\<open>d[k] = v\<close>: an existing key keeps its place, a new key goes last.\<close>

fun dict_set :: "('k \<times> 'v) list \<Rightarrow> 'k \<Rightarrow> 'v \<Rightarrow> ('k \<times> 'v) list" where
  "dict_set [] k v = [(k, v)]"
| "dict_set ((k', v') # d) k v = (if k' = k then (k, v) # d else (k', v') # dict_set d k v)"

type_synonym results = "(string \<times> scored) list"

text \<open>The first loop of \<^verbatim>\<open>select_ab_winner\<close> (lines 128 to 131).\<close>

fun hard_gate_failures ::
  "results \<Rightarrow> string list \<Rightarrow> (string \<times> bool) list \<Rightarrow> pyexc + (string \<times> bool) list" where
  "hard_gate_failures rs [] acc = Inr acc"
| "hard_gate_failures rs (e # es) acc =
     (case map_of rs e of
        None \<Rightarrow> hard_gate_failures rs es acc
      | Some r \<Rightarrow>
          (case is_hard_gate_failure r e of
             Inl x \<Rightarrow> Inl x
           | Inr b \<Rightarrow> hard_gate_failures rs es (dict_set acc e b)))"

text \<open>The second loop (lines 150 to 160): the running maximum and the running winner.\<close>

fun highest_fit :: "results \<Rightarrow> string list \<Rightarrow> int \<Rightarrow> string option \<Rightarrow> string option" where
  "highest_fit rs [] max_score winner = winner"
| "highest_fit rs (e # es) max_score winner =
     (case map_of rs e of
        None \<Rightarrow> highest_fit rs es max_score winner
      | Some r \<Rightarrow>
          if fit_score r > max_score then highest_fit rs es (fit_score r) (Some e)
          else if fit_score r = max_score \<and> e = ''perfecter_v1'' then highest_fit rs es max_score (Some e)
          else highest_fit rs es max_score winner)"

definition first_key :: "results \<Rightarrow> pyexc + string" where
  "first_key rs = (case rs of [] \<Rightarrow> Inl KeyError | (k, _) # _ \<Rightarrow> Inr k)"

text \<open>
  \<^verbatim>\<open>select_ab_winner\<close>, lines 109 to 162. The third parameter of the source is not read
  by it and is left out.
\<close>

definition select_ab_winner :: "results \<Rightarrow> string list \<Rightarrow> pyexc + string" where
  "select_ab_winner rs ab_test_engines =
     (case hard_gate_failures rs ab_test_engines [] of
        Inl x \<Rightarrow> Inl x
      | Inr hgf \<Rightarrow>
          (case map fst (filter snd hgf) of
             skip_engine # others \<Rightarrow>
               if length (skip_engine # others) = length hgf then
                 Inr (if ''perfecter_v1'' \<in> set (skip_engine # others) then ''perfecter_v1''
                      else skip_engine)
               else Inr skip_engine
           | [] \<Rightarrow>
               (case highest_fit rs ab_test_engines (- 1) None of
                  None \<Rightarrow> first_key rs
                | Some winner \<Rightarrow> if winner \<noteq> [] then Inr winner else first_key rs)))"

section \<open>The comparison artifact\<close>

fun show_nat :: "nat \<Rightarrow> string" where
  "show_nat n =
     (if n < 10 then [char_of (48 + n)]
      else show_nat (n div 10) @ [char_of (48 + n mod 10)])"

declare show_nat.simps [simp del]

definition dict_del :: "('k \<times> 'v) list \<Rightarrow> 'k \<Rightarrow> ('k \<times> 'v) list" where
  "dict_del d k = filter (\<lambda>kv. fst kv \<noteq> k) d"

text \<open>The loop of lines 194 to 204: the engines' raw outputs and the prompt hashes.\<close>

fun collect_engines ::
  "env \<Rightarrow> results \<Rightarrow> string list \<Rightarrow> (string \<times> pydict) list \<times> (string \<times> string) list
     \<Rightarrow> (string \<times> pydict) list \<times> (string \<times> string) list" where
  "collect_engines E rs [] acc = acc"
| "collect_engines E rs (e # es) (engs, hashes) =
     (case map_of rs e of
        None \<Rightarrow> collect_engines E rs es (engs, hashes)
      | Some r \<Rightarrow>
          collect_engines E rs es
            (dict_set engs e (raw_score r),
             dict_set hashes e
               (case load_scorer_prompt E e of
                  Inr prompt \<Rightarrow> get_prompt_hash E prompt
                | Inl x \<Rightarrow> ''error:'' @ take 50 (exc_str E x))))"

definition engines_json :: "(string \<times> pydict) list \<Rightarrow> json" where
  "engines_json engs = JDict (map (\<lambda>kv. (fst kv, JDict (snd kv))) engs)"

definition hashes_json :: "(string \<times> string) list \<Rightarrow> json" where
  "hashes_json hs = JDict (map (\<lambda>kv. (fst kv, JStr (snd kv))) hs)"

definition runtime_json :: "env \<Rightarrow> pydict \<Rightarrow> json" where
  "runtime_json E runtime =
     JDict [(''model'', dict_get_default runtime ''model'' (JStr ''unknown'')),
            (''temperature'', dict_get_default runtime ''temperature'' (JFloat (Finite 0 0))),
            (''timestamp_utc'', dict_get_default runtime ''timestamp_utc'' (JStr (now_isoformat E)))]"

definition strip_debug :: "string \<Rightarrow> (string \<times> pydict) list \<Rightarrow> (string \<times> pydict) list" where
  "strip_debug winner_engine engs =
     map (\<lambda>kv. if fst kv \<noteq> winner_engine \<and> ''debug'' \<in> fst ` set (snd kv)
                then (fst kv, dict_del (snd kv) ''debug'') else kv) engs"

definition max_len :: nat where
  "max_len = 90000"

definition truncation_note :: "nat \<Rightarrow> pydict" where
  "truncation_note n =
     [(''TRUNCATED'', JBool True),
      (''TRUNCATED_REASON'',
         JStr (''JSON size '' @ show_nat n @ '' exceeded max '' @ show_nat max_len))]"

definition ab_output :: "string \<Rightarrow> results \<Rightarrow> json \<Rightarrow> json \<Rightarrow> json \<Rightarrow> pydict" where
  "ab_output winner_engine rs engines hashes runtime =
     [(''engines'', engines),
      (''winner'', JStr winner_engine),
      (''winner_fit_score'',
         (case map_of rs winner_engine of None \<Rightarrow> JNull | Some r \<Rightarrow> JInt (fit_score r))),
      (''winner_next_action'',
         (case map_of rs winner_engine of None \<Rightarrow> JNull | Some r \<Rightarrow> JStr (next_action r))),
      (''hashes'', hashes),
      (''runtime'', runtime)]"

definition ab_minimal :: "string \<Rightarrow> pydict \<Rightarrow> json \<Rightarrow> json \<Rightarrow> pydict" where
  "ab_minimal winner_engine winner_raw hashes runtime =
     [(''engines'', JDict [(winner_engine, JDict winner_raw)]),
      (''winner'', JStr winner_engine),
      (''hashes'', hashes),
      (''runtime'', runtime),
      (''TRUNCATED'', JBool True),
      (''TRUNCATED_REASON'', JStr ''Aggressive truncation: kept only winner engine'')]"

text \<open>\<^verbatim>\<open>build_scoring_ab_json\<close>, lines 165 to 233.\<close>

definition build_scoring_ab_json ::
  "env \<Rightarrow> results \<Rightarrow> string list \<Rightarrow> string \<Rightarrow> json \<Rightarrow> pyexc + string" where
  "build_scoring_ab_json E rs ab_test_engines winner_engine scorer_input =
     (case py_subscript scorer_input ''runtime'' of
        Inl x \<Rightarrow> Inl x
      | Inr (JDict runtime) \<Rightarrow>
          (let (engs, hashes) = collect_engines E rs ab_test_engines ([], []);
               output = ab_output winner_engine rs (engines_json engs) (hashes_json hashes)
                          (runtime_json E runtime);
               json_string = json_dumps_sorted E (JDict output)
           in if length json_string > max_len then
                (let output2 = ab_output winner_engine rs
                                 (engines_json (strip_debug winner_engine engs))
                                 (hashes_json hashes) (runtime_json E runtime)
                               @ truncation_note (length json_string);
                     json_string2 = json_dumps_sorted E (JDict output2)
                 in if length json_string2 > max_len then
                      (case map_of (strip_debug winner_engine engs) winner_engine of
                         None \<Rightarrow> Inl KeyError
                       | Some winner_raw \<Rightarrow>
                           Inr (json_dumps_sorted E
                                  (JDict (ab_minimal winner_engine winner_raw
                                            (hashes_json hashes) (runtime_json E runtime)))))
                    else Inr json_string2)
              else Inr json_string)
      | Inr _ \<Rightarrow> Inl AttributeError)"

section \<open>The schema-tolerant writer\<close>

text \<open>\<^verbatim>\<open>filter_fields_to_table\<close>, lines 319 to 329: the kept fields and the lines printed.\<close>

fun filter_fields_to_table :: "pydict \<Rightarrow> string set \<Rightarrow> pydict \<times> string list" where
  "filter_fields_to_table [] names = ([], [])"
| "filter_fields_to_table ((key, v) # payload) names =
     (let (filtered, drops) = filter_fields_to_table payload names
      in if key \<in> names then ((key, v) # filtered, drops)
         else (filtered, (''FIELD_DROP '' @ key) # drops))"

definition filter_fields :: "pydict \<Rightarrow> string set \<Rightarrow> world \<Rightarrow> pydict \<times> world" where
  "filter_fields payload names w =
     (let (filtered, drops) = filter_fields_to_table payload names
      in (filtered, w\<lparr>printed := printed w @ drops\<rparr>))"

text \<open>\<^verbatim>\<open>sample_valid_fields\<close>, lines 332 to 340.\<close>

definition sample_valid_fields :: "env \<Rightarrow> string \<Rightarrow> world \<Rightarrow> (pyexc + string set) \<times> world" where
  "sample_valid_fields E table_name w =
     (case call_list_records E table_name 3 None w of
        (Inl e, w1) \<Rightarrow> (Inl e, w1)
      | (Inr records, w1) \<Rightarrow>
          (Inr (fold (\<lambda>r valid_fields. valid_fields \<union> fst ` set (rec_fields r)) records {}), w1))"

text \<open>The arguments \<^verbatim>\<open>run_scoring\<close> hands to \<^verbatim>\<open>score_job_record\<close> for every record.\<close>

record args =
  arg_dry_run :: bool
  arg_table_field_names :: "string set"
  arg_valid_fields :: "string set"
  arg_scorer_engine :: string
  arg_ab_test :: "string list"
  arg_run_id :: string
  arg_candidate :: json

definition retry_fields :: "pydict \<Rightarrow> pydict" where
  "retry_fields filtered = filter (\<lambda>kv. fst kv \<noteq> ''ScoringStatus'' \<and> fst kv \<noteq> ''SkipReason'') filtered"

text \<open>
  \<^verbatim>\<open>safe_update\<close>, lines 458 to 486: the payload is filtered against
  \<^verbatim>\<open>table_field_names\<close>; nothing left is a failure; in a dry run nothing is written;
  a failed write is tried once more without the two free-text fields when that makes a
  smaller, non-empty payload.
\<close>

definition safe_update :: "env \<Rightarrow> args \<Rightarrow> string \<Rightarrow> pydict \<Rightarrow> world \<Rightarrow> bool \<times> world" where
  "safe_update E A record_id fields_dict w =
     (case filter_fields fields_dict (arg_table_field_names A) w of
        (filtered, w1) \<Rightarrow>
          if filtered = [] then (False, w1)
          else if \<not> arg_dry_run A then
            (case call_update E record_id filtered w1 of
               (None, w2) \<Rightarrow> (True, w2)
             | (Some e, w2) \<Rightarrow>
                 if retry_fields filtered \<noteq> [] \<and> retry_fields filtered \<noteq> filtered then
                   (case call_update E record_id (retry_fields filtered) w2 of
                      (None, w3) \<Rightarrow> (True, w3)
                    | (Some e2, w3) \<Rightarrow> (False, w3))
                 else (False, w2))
          else (True, w1))"

text \<open>
  The recurring block
  \<^verbatim>\<open>update_fields = filter_fields_to_table(update_fields, table_field_names)\<close>,
  \<^verbatim>\<open>if update_fields: safe_update(update_fields, step)\<close>.
\<close>

definition filtered_update :: "env \<Rightarrow> args \<Rightarrow> string \<Rightarrow> pydict \<Rightarrow> world \<Rightarrow> world" where
  "filtered_update E A record_id payload w =
     (case filter_fields payload (arg_table_field_names A) w of
        (update_fields, w1) \<Rightarrow>
          if update_fields \<noteq> [] then snd (safe_update E A record_id update_fields w1) else w1)"

section \<open>The orchestrator\<close>

text \<open>\<^verbatim>\<open>utils.join_lines\<close>, \<^verbatim>\<open>utils.join_commas\<close> and \<^verbatim>\<open>utils.merge_notes\<close>.\<close>

definition join_items :: "env \<Rightarrow> string \<Rightarrow> json \<Rightarrow> string" where
  "join_items E sep items =
     (case items of
        JNull \<Rightarrow> []
      | JList xs \<Rightarrow>
          join_with sep (map (py_str E) (filter (\<lambda>x. x \<noteq> JNull \<and> py_strip (py_str E x) \<noteq> []) xs))
      | _ \<Rightarrow> py_str E items)"

definition join_lines :: "env \<Rightarrow> json \<Rightarrow> string" where
  "join_lines E items = join_items E ''\<newline>'' items"

definition join_commas :: "env \<Rightarrow> json \<Rightarrow> string" where
  "join_commas E items = join_items E '', '' items"

definition merge_notes :: "string \<Rightarrow> string \<Rightarrow> string" where
  "merge_notes a b =
     (if py_strip a \<noteq> [] \<and> py_strip b \<noteq> [] then py_strip a @ ''\<newline>'' @ py_strip b
      else if py_strip a \<noteq> [] then py_strip a else py_strip b)"

text \<open>\<^verbatim>\<open>fields.get(k, "").strip()\<close>: a value that is not a string has no \<^verbatim>\<open>strip\<close>.\<close>

definition get_stripped :: "pydict \<Rightarrow> string \<Rightarrow> pyexc + string" where
  "get_stripped flds k =
     (case map_of flds k of
        None \<Rightarrow> Inr []
      | Some (JStr s) \<Rightarrow> Inr (py_strip s)
      | Some _ \<Rightarrow> Inl AttributeError)"

datatype outcome = Scored int string | Skipped string | Failed string

definition CLEAN_MIN_LEN :: nat where
  "CLEAN_MIN_LEN = 600"

definition skip_no_jd_fields :: pydict where
  "skip_no_jd_fields =
     [(''Status'', JStr ''Needs JD''),
      (''ScoringStatus'', JStr ''SKIPPED''),
      (''SkipReason'', JStr ''JobDescriptionRaw empty after stripping. Needs full JD.'')]"

definition short_jd_note :: "nat \<Rightarrow> pydict" where
  "short_jd_note n = [(''NeedsHumanInput'', JStr (''SHORT_JD_SCORING len='' @ show_nat n))]"

text \<open>
  Lines 509 to 549: the cached \<^verbatim>\<open>JobDescriptionText\<close> is used when there is one;
  otherwise the raw text is cleaned, a short result is noted, and the text is written.
  The threshold is a parameter here; the program's is \<open>CLEAN_MIN_LEN\<close>.
\<close>

definition jobtext_phase ::
  "nat \<Rightarrow> env \<Rightarrow> args \<Rightarrow> string \<Rightarrow> pydict \<Rightarrow> string \<Rightarrow> world \<Rightarrow> (pyexc + string) \<times> world" where
  "jobtext_phase min_len E A record_id flds job_description_raw w =
     (case get_stripped flds ''JobDescriptionText'' of
        Inl e \<Rightarrow> (Inl e, w)
      | Inr existing \<Rightarrow>
          if existing = [] then
            (let job_description_text = clean_html_to_text E job_description_raw;
                 w1 = (if length job_description_text < min_len \<and> \<not> arg_dry_run A
                       then filtered_update E A record_id
                              (short_jd_note (length job_description_text)) w
                       else w);
                 w2 = (if \<not> arg_dry_run A
                       then filtered_update E A record_id
                              [(''JobDescriptionText'', JStr job_description_text)] w1
                       else w1)
             in (Inr job_description_text, w2))
          else (Inr existing, w))"

definition structure_keys :: "string set" where
  "structure_keys =
     {''company'', ''job_title'', ''location'', ''remote_status'', ''seniority'',
      ''apply_type'', ''requirements'', ''responsibilities'', ''keywords'',
      ''tech_stack'', ''needs_human_input''}"

definition as_dict :: "json \<Rightarrow> pydict" where
  "as_dict j = (case j of JDict d \<Rightarrow> d | _ \<Rightarrow> [])"

definition fallback_jobjson :: "pydict \<Rightarrow> pydict" where
  "fallback_jobjson flds =
     [(''job_title'', py_or (py_or (dict_get flds ''JobTitle'') (dict_get flds ''Title'')) JNull),
      (''company'', JNull),
      (''location'', JNull),
      (''remote_status'', JStr ''Unknown''),
      (''seniority'', JStr ''Unknown''),
      (''apply_type'', JStr ''Unknown''),
      (''requirements'', JList []),
      (''responsibilities'', JList []),
      (''keywords'', JList []),
      (''tech_stack'', JList []),
      (''needs_human_input'', JList [JStr ''JOBJSON_PARSE_FAILED''])]"

text \<open>
  Lines 555 to 629: a cached \<^verbatim>\<open>JobJSON\<close> that parses to a non-empty dictionary is used;
  otherwise the job structurer is called once, its answer is validated or replaced by
  the fallback, and the result is written. The call stands outside the \<^verbatim>\<open>try\<close> of
  line 630, so an exception of it leaves \<^verbatim>\<open>score_job_record\<close>.
\<close>

definition cached_jobjson :: "env \<Rightarrow> string \<Rightarrow> pydict" where
  "cached_jobjson E jobjson_raw =
     (if jobjson_raw \<noteq> [] then as_dict (py_or (safe_parse_json E jobjson_raw) (JDict [])) else [])"

definition jobjson_phase ::
  "env \<Rightarrow> args \<Rightarrow> string \<Rightarrow> pydict \<Rightarrow> string \<Rightarrow> world \<Rightarrow> (pyexc + pydict) \<times> world" where
  "jobjson_phase E A record_id flds job_description_text w =
     (case get_stripped flds ''JobJSON'' of
        Inl e \<Rightarrow> (Inl e, w)
      | Inr jobjson_raw \<Rightarrow>
          if cached_jobjson E jobjson_raw = [] then
            (case call_llm E Structurer (OPENAI_MODEL_PARSE E) (JOB_PARSE_PROMPT_with E job_description_text) w of
               (Inl e, w1) \<Rightarrow> (Inl e, w1)
             | (Inr parsed_text, w1) \<Rightarrow>
                 (let p = py_or (safe_parse_json E parsed_text) (JDict []);
                      complete = (case p of JDict d \<Rightarrow> structure_keys \<subseteq> fst ` set d | _ \<Rightarrow> False);
                      parsed = (if complete then as_dict p else fallback_jobjson flds);
                      w2 = (if \<not> complete \<and> \<not> arg_dry_run A
                            then filtered_update E A record_id
                                   [(''NeedsHumanInput'', JStr ''JOBJSON_PARSE_FAILED'')] w1
                            else w1);
                      jobjson_string = json_dumps_compact E (JDict parsed);
                      w3 = (if \<not> arg_dry_run A
                            then filtered_update E A record_id [(''JobJSON'', JStr jobjson_string)] w2
                            else w2)
                  in (Inr parsed, w3)))
          else (Inr (cached_jobjson E jobjson_raw), w))"

text \<open>Lines 631 to 659: the structured fields that have a true value are written.\<close>

definition parsed_fields_to_update :: "env \<Rightarrow> pydict \<Rightarrow> pydict" where
  "parsed_fields_to_update E parsed =
     filter (\<lambda>kv. py_truthy (snd kv))
       [(''Company'', dict_get parsed ''company''),
        (''JobTitle'', dict_get parsed ''job_title''),
        (''Location'', dict_get parsed ''location''),
        (''RemoteStatus'', dict_get parsed ''remote_status''),
        (''Requirements'', JStr (join_lines E (dict_get_default parsed ''requirements'' (JList [])))),
        (''Responsibilities'', JStr (join_lines E (dict_get_default parsed ''responsibilities'' (JList [])))),
        (''Keywords'', JStr (join_commas E (dict_get_default parsed ''keywords'' (JList [])))),
        (''TechStack'', JStr (join_commas E (dict_get_default parsed ''tech_stack'' (JList [])))),
        (''NeedsHumanInput'', JStr (join_lines E (dict_get_default parsed ''needs_human_input'' (JList []))))]"

definition write_parsed_fields :: "env \<Rightarrow> args \<Rightarrow> string \<Rightarrow> pydict \<Rightarrow> world \<Rightarrow> world" where
  "write_parsed_fields E A record_id parsed w =
     (if parsed_fields_to_update E parsed \<noteq> []
      then filtered_update E A record_id (parsed_fields_to_update E parsed) w
      else w)"

text \<open>Lines 663 to 695: the input envelope. 0.7 is the double \<open>6305039478318694 * 2^-53\<close>.\<close>

definition scorer_input_of :: "env \<Rightarrow> args \<Rightarrow> pydict \<Rightarrow> string \<Rightarrow> json" where
  "scorer_input_of E A parsed job_description_cleaned =
     JDict
       [(''candidate'', JDict [(''candidate_profile'', arg_candidate A)]),
        (''job'',
           JDict
             [(''job_profile'',
                 JDict
                   [(''title'', py_or (dict_get parsed ''job_title'') (JStr [])),
                    (''company'', py_or (dict_get parsed ''company'') (JStr [])),
                    (''location'', py_or (dict_get parsed ''location'') (JStr [])),
                    (''employment_type'', py_or (dict_get parsed ''remote_status'') (JStr ''Unknown'')),
                    (''role_family_guess'', py_or (dict_get parsed ''seniority'') (JStr ''Unknown'')),
                    (''responsibilities'', dict_get_default parsed ''responsibilities'' (JList [])),
                    (''required_qualifications'', dict_get_default parsed ''requirements'' (JList [])),
                    (''preferred_qualifications'', JList []),
                    (''tech_stack'', dict_get_default parsed ''tech_stack'' (JList [])),
                    (''industry'', JStr []),
                    (''flags'', build_flags_from_jd E job_description_cleaned),
                    (''raw_text'', JStr job_description_cleaned)]),
              (''job_json'', JDict parsed)]),
        (''runtime'',
           JDict
             [(''creativity_dial'', JFloat (Finite 6305039478318694 (- 53))),
              (''model'', OPENAI_MODEL_SCORE E),
              (''temperature'', JFloat (Finite 6305039478318694 (- 53))),
              (''run_id'', JStr (arg_run_id A))])]"

text \<open>The loop of lines 700 to 704: every engine is run, the scored results are kept.\<close>

fun run_engines ::
  "env \<Rightarrow> string list \<Rightarrow> json \<Rightarrow> results \<Rightarrow> world \<Rightarrow> (pyexc + results) \<times> world" where
  "run_engines E [] scorer_input rs w = (Inr rs, w)"
| "run_engines E (e # es) scorer_input rs w =
     (case run_single_scorer E e scorer_input w of
        (Inl x, w1) \<Rightarrow> (Inl x, w1)
      | (Inr (ScoredResult r), w1) \<Rightarrow> run_engines E es scorer_input (dict_set rs e r) w1
      | (Inr (InvalidModelOutput _), w1) \<Rightarrow> run_engines E es scorer_input rs w1)"

text \<open>
  Lines 698 to 732: the engines' verdict. \<open>None\<close> is the early return
  \<^verbatim>\<open>invalid_model_output\<close>; otherwise the result that counts, all results and the winner.
\<close>

definition run_scorers ::
  "env \<Rightarrow> args \<Rightarrow> json \<Rightarrow> world \<Rightarrow> (pyexc + (scored \<times> results \<times> string) option) \<times> world" where
  "run_scorers E A scorer_input w =
     (if arg_ab_test A \<noteq> [] then
        (case run_engines E (arg_ab_test A) scorer_input [] w of
           (Inl x, w1) \<Rightarrow> (Inl x, w1)
         | (Inr rs, w1) \<Rightarrow>
             if rs = [] then (Inr None, w1)
             else
               (case select_ab_winner rs (arg_ab_test A) of
                  Inl x \<Rightarrow> (Inl x, w1)
                | Inr winner_engine \<Rightarrow>
                    (case map_of rs winner_engine of
                       None \<Rightarrow> (Inl KeyError, w1)
                     | Some winner_result \<Rightarrow> (Inr (Some (winner_result, rs, winner_engine)), w1))))
      else
        (case run_single_scorer E (arg_scorer_engine A) scorer_input w of
           (Inl x, w1) \<Rightarrow> (Inl x, w1)
         | (Inr (InvalidModelOutput _), w1) \<Rightarrow> (Inr None, w1)
         | (Inr (ScoredResult r), w1) \<Rightarrow> (Inr (Some (r, [], [])), w1)))"

definition optional_fields_c :: "env \<Rightarrow> string \<Rightarrow> scored \<Rightarrow> pydict" where
  "optional_fields_c E needs_human_input_text r =
     filter (\<lambda>kv. py_truthy (snd kv))
       [(''FitReasons'', JStr (join_lines E (fit_reasons r))),
        (''GapsRisks'', JStr (join_lines E (gaps_risks r))),
        (''NeedsHumanInput'',
           JStr (merge_notes needs_human_input_text (join_lines E (needs_human_input r))))]"

text \<open>
  Lines 741 to 772: the score with the status, the next action (with the fallback
  \<^verbatim>\<open>Review\<close> when that write fails) and the optional texts.
\<close>

definition write_core_fields :: "env \<Rightarrow> args \<Rightarrow> string \<Rightarrow> string \<Rightarrow> scored \<Rightarrow> world \<Rightarrow> world" where
  "write_core_fields E A record_id needs_human_input_text r w =
     (let update_dict =
            [(''FitScore'', JInt (fit_score r)), (''Status'', JStr ''Scored''),
             (''ScoringStatus'', JStr ''SCORED'')]
            @ (if arg_run_id A \<noteq> [] then [(''RunID'', JStr (arg_run_id A))] else []);
          w1 = snd (safe_update E A record_id update_dict w);
          (ok, w2) = safe_update E A record_id [(''NextAction'', JStr (next_action r))] w1;
          w3 = (if ok then w2
                else (case filter_fields [(''NextAction'', JStr ''Review'')]
                             (arg_table_field_names A) w2 of
                        (fallback, w') \<Rightarrow> snd (safe_update E A record_id fallback w')))
      in if optional_fields_c E needs_human_input_text r \<noteq> [] then
           (case filter_fields (optional_fields_c E needs_human_input_text r)
                   (arg_table_field_names A) w3 of
              (opt, w') \<Rightarrow> snd (safe_update E A record_id opt w'))
         else w3)"

text \<open>Lines 736 to 796: the writes of a scored record; a dry run writes nothing.\<close>

definition write_results ::
  "env \<Rightarrow> args \<Rightarrow> string \<Rightarrow> string \<Rightarrow> scored \<Rightarrow> results \<Rightarrow> string \<Rightarrow> json \<Rightarrow> world \<Rightarrow> world" where
  "write_results E A record_id needs_human_input_text r rs winner_engine scorer_input w =
     (if \<not> arg_dry_run A then
        (if arg_ab_test A \<noteq> [] then
           (case build_scoring_ab_json E rs (arg_ab_test A) winner_engine scorer_input of
              Inl x \<Rightarrow> write_core_fields E A record_id needs_human_input_text r w
            | Inr ab_json_string \<Rightarrow>
                filtered_update E A record_id [(''ScoringAB'', JStr ab_json_string)]
                  (write_core_fields E A record_id needs_human_input_text r w))
         else write_core_fields E A record_id needs_human_input_text r w)
      else w)"

text \<open>The handler of lines 804 to 819.\<close>

definition record_failure :: "env \<Rightarrow> args \<Rightarrow> string \<Rightarrow> pyexc \<Rightarrow> world \<Rightarrow> world" where
  "record_failure E A record_id x w =
     (if \<not> arg_dry_run A then
        filtered_update E A record_id
          [(''ScoringStatus'', JStr ''FAILED''),
           (''SkipReason'', JStr (''Scoring error: '' @ take 200 (exc_str E x)))] w
      else w)"

text \<open>The \<^verbatim>\<open>try\<close> block of lines 630 to 819.\<close>

definition scoring_phase ::
  "env \<Rightarrow> args \<Rightarrow> string \<Rightarrow> pydict \<Rightarrow> string \<Rightarrow> world \<Rightarrow> outcome \<times> world" where
  "scoring_phase E A record_id parsed job_description_cleaned w =
     (let needs_human_input_text =
            join_lines E (dict_get_default parsed ''needs_human_input'' (JList []));
          w1 = write_parsed_fields E A record_id parsed w;
          scorer_input = scorer_input_of E A parsed job_description_cleaned
      in case run_scorers E A scorer_input w1 of
           (Inl x, w2) \<Rightarrow> (Failed (exc_str E x), record_failure E A record_id x w2)
         | (Inr None, w2) \<Rightarrow> (Failed ''invalid_model_output'', w2)
         | (Inr (Some (r, rs, winner_engine)), w2) \<Rightarrow>
             (Scored (fit_score r) (next_action r),
              write_results E A record_id needs_human_input_text r rs winner_engine scorer_input w2))"

text \<open>
  \<^verbatim>\<open>score_job_record\<close>, lines 450 to 819. \<open>Inl\<close> is an exception that leaves the
  function.
\<close>

definition score_job_record_with ::
  "nat \<Rightarrow> env \<Rightarrow> args \<Rightarrow> job_record \<Rightarrow> world \<Rightarrow> (pyexc + outcome) \<times> world" where
  "score_job_record_with min_len E A job_record w =
     (case get_stripped (rec_fields job_record) ''JobDescriptionRaw'' of
        Inl e \<Rightarrow> (Inl e, w)
      | Inr job_description_raw \<Rightarrow>
          if job_description_raw = [] then
            (Inr (Skipped ''no_description''),
             if \<not> arg_dry_run A then filtered_update E A (rec_id job_record) skip_no_jd_fields w
             else w)
          else
            (case jobtext_phase min_len E A (rec_id job_record) (rec_fields job_record)
                    job_description_raw w of
               (Inl e, w1) \<Rightarrow> (Inl e, w1)
             | (Inr job_description_text, w1) \<Rightarrow>
                 (case jobjson_phase E A (rec_id job_record) (rec_fields job_record)
                         job_description_text w1 of
                    (Inl e, w2) \<Rightarrow> (Inl e, w2)
                  | (Inr parsed, w2) \<Rightarrow>
                      (case scoring_phase E A (rec_id job_record) parsed
                              (clean_html_to_text E job_description_raw) w2 of
                         (res, w3) \<Rightarrow> (Inr res, w3)))))"

definition score_job_record :: "env \<Rightarrow> args \<Rightarrow> job_record \<Rightarrow> world \<Rightarrow> (pyexc + outcome) \<times> world" where
  "score_job_record E A job_record w = score_job_record_with CLEAN_MIN_LEN E A job_record w"

subsection \<open>The run\<close>

record stats =
  n_total :: nat
  n_scored :: nat
  n_skipped :: nat
  n_errors :: nat

definition static_table_field_names :: "string set" where
  "static_table_field_names =
     {''FitScore'', ''NextAction'', ''FitReasons'', ''GapsRisks'', ''NeedsHumanInput'', ''Status'',
      ''ScoringStatus'', ''SkipReason'', ''ProcessedAt'',
      ''Company'', ''Location'', ''RemoteStatus'', ''Requirements'', ''Responsibilities'',
      ''Keywords'', ''TechStack'', ''JobTitle'', ''JobURL'', ''JobDescriptionRaw'',
      ''JobDescriptionText'', ''JobJSON'',
      ''DateFound'', ''Source'', ''Strategy'', ''ScoringAB'', ''RunID''}"

definition filter_formula :: string where
  "filter_formula = ''AND(LEN({JobDescriptionRaw})>0, {FitScore}=BLANK())''"

text \<open>The loop of lines 1026 to 1045.\<close>

fun score_all ::
  "env \<Rightarrow> args \<Rightarrow> job_record list \<Rightarrow> stats \<Rightarrow> world \<Rightarrow> (pyexc + stats) \<times> world" where
  "score_all E A [] st w = (Inr st, w)"
| "score_all E A (r # rs) st w =
     (case score_job_record E A r w of
        (Inl e, w1) \<Rightarrow> (Inl e, w1)
      | (Inr (Scored _ _), w1) \<Rightarrow> score_all E A rs (st\<lparr>n_scored := n_scored st + 1\<rparr>) w1
      | (Inr (Skipped _), w1) \<Rightarrow> score_all E A rs (st\<lparr>n_skipped := n_skipped st + 1\<rparr>) w1
      | (Inr (Failed _), w1) \<Rightarrow> score_all E A rs (st\<lparr>n_errors := n_errors st + 1\<rparr>) w1)"

text \<open>
  \<^verbatim>\<open>run_scoring\<close>, lines 822 to 1052, with the diagnostic switches off (their defaults).
  The engines' prompts are loaded at the start only to print their hashes, inside a
  handler that prints a warning; that block writes nothing and decides nothing.
\<close>

definition run_scoring ::
  "env \<Rightarrow> nat \<Rightarrow> bool \<Rightarrow> string \<Rightarrow> string list \<Rightarrow> world \<Rightarrow> (pyexc + stats) \<times> world" where
  "run_scoring E max_jobs dry_run scorer_engine ab_test w =
     (case sample_valid_fields E (AIRTABLE_TABLE_JOBS E) w of
        (Inl e, w1) \<Rightarrow> (Inl e, w1)
      | (Inr valid_fields, w1) \<Rightarrow>
          (case call_find_one E (AIRTABLE_TABLE_CANDIDATE E) w1 of
             (Inl e, w2) \<Rightarrow> (Inl e, w2)
           | (Inr None, w2) \<Rightarrow> (Inl RuntimeError, w2)
           | (Inr (Some candidate_record), w2) \<Rightarrow>
               (let candidate_json_str = dict_get (rec_fields candidate_record) ''CandidateJSON''
                in if \<not> py_truthy candidate_json_str then
                     (Inr \<lparr>n_total = 0, n_scored = 0, n_skipped = 0, n_errors = 1\<rparr>, w2)
                   else
                     (case candidate_json_str of
                        JStr cs \<Rightarrow>
                          (case json_loads E cs of
                             None \<Rightarrow> (Inr \<lparr>n_total = 0, n_scored = 0, n_skipped = 0, n_errors = 1\<rparr>, w2)
                           | Some candidate_for_scoring \<Rightarrow>
                               (let A = \<lparr>arg_dry_run = dry_run,
                                         arg_table_field_names = static_table_field_names,
                                         arg_valid_fields = valid_fields,
                                         arg_scorer_engine = scorer_engine,
                                         arg_ab_test = ab_test,
                                         arg_run_id = generate_run_id E,
                                         arg_candidate = candidate_for_scoring\<rparr>
                                in case call_list_records E (AIRTABLE_TABLE_JOBS E) max_jobs
                                          (Some filter_formula) w2 of
                                     (Inr records, w3) \<Rightarrow>
                                       score_all E A records
                                         \<lparr>n_total = length records, n_scored = 0, n_skipped = 0,
                                          n_errors = 0\<rparr> w3
                                   | (Inl e, w3) \<Rightarrow>
                                       (case call_list_records E (AIRTABLE_TABLE_JOBS E) max_jobs
                                               (Some filter_formula) w3 of
                                          (Inl e2, w4) \<Rightarrow> (Inl e2, w4)
                                        | (Inr records, w4) \<Rightarrow>
                                            score_all E A records
                                              \<lparr>n_total = length records, n_scored = 0,
                                               n_skipped = 0, n_errors = 0\<rparr> w4)))
                      | _ \<Rightarrow> (Inl TypeError, w2)))))"

section \<open>An environment for examples\<close>

text \<open>
  The examples below run the model in a small world. The stand-ins for the library agree
  with it on the values the examples hand them: \<^verbatim>\<open>json.loads\<close> on the texts
  \<^verbatim>\<open>{}\<close>, \<^verbatim>\<open>[1]\<close>, \<^verbatim>\<open>{"a":1}\<close> and \<^verbatim>\<open>nope\<close> (which is not JSON), \<^verbatim>\<open>str()\<close> on
  strings, \<^verbatim>\<open>html.unescape\<close> on texts whose references are \<^verbatim>\<open>&amp;\<close>, \<^verbatim>\<open>&lt;\<close>
  and \<^verbatim>\<open>&gt;\<close>. The model answers every prompt with a given text, every write succeeds,
  the first \<^verbatim>\<open>list_records\<close> call (the schema sample) returns the first list of records
  and the later ones the second, and the candidate profile holds \<^verbatim>\<open>{}\<close>.
\<close>

definition json_a :: string where
  "json_a = ''{'' @ [CHR 0x22] @ ''a'' @ [CHR 0x22] @ '':1}''"

definition example_json_loads :: "string \<Rightarrow> json option" where
  "example_json_loads s =
     (if s = ''{}'' then Some (JDict [])
      else if s = ''[1]'' then Some (JList [JInt 1])
      else if s = json_a then Some (JDict [(''a'', JInt 1)])
      else None)"

definition example_env :: "string \<Rightarrow> job_record list \<Rightarrow> job_record list \<Rightarrow> env" where
  "example_env answer sample jobs =
     \<lparr>json_loads = example_json_loads,
      json_dumps = (\<lambda>j. ''{}''),
      json_dumps_compact = (\<lambda>j. ''{}''),
      json_dumps_sorted = (\<lambda>j. ''{}''),
      py_str = (\<lambda>j. case j of JStr t \<Rightarrow> t | _ \<Rightarrow> []),
      py_float = (\<lambda>j. Inl TypeError),
      exc_str = (\<lambda>x. ''Unknown scorer engine: bogus''),
      html_unescape = unescape_basic 0,
      sha256_hexdigest = (\<lambda>t. ''0000000000000000''),
      now_isoformat = ''2026-01-01T00:00:00+00:00'',
      JOB_SCORER_PROMPT_V1 = ''PROMPT_V1'',
      JOB_PARSE_PROMPT_with = (\<lambda>t. ''PARSE '' @ t),
      perfecter_prompt_file = Inr ''PROMPT_PERFECTER'',
      build_flags_from_jd = (\<lambda>t. JDict []),
      OPENAI_MODEL_PARSE = JStr ''model-parse'',
      OPENAI_MODEL_SCORE = JStr ''model-score'',
      AIRTABLE_TABLE_JOBS = ''Jobs'',
      AIRTABLE_TABLE_CANDIDATE = ''CandidateProfile'',
      generate_run_id = ''RUN_2026-01-01T00-00-00Z'',
      list_records = (\<lambda>n table max_records formula. Inr (if n = 0 then sample else jobs)),
      find_one = (\<lambda>table. Inr (Some \<lparr>rec_id = ''recC'', rec_fields = [(''CandidateJSON'', JStr ''{}'')]\<rparr>)),
      request_json = (\<lambda>n model prompt. Inr answer),
      update_record = (\<lambda>n table record_id payload. None)\<rparr>"


text \<open>
  Two scorer responses: one of the heuristic engine with fit score 1, a clearance gap
  and a given next action, and one of the file-defined engine with fit score 4 and its
  gates passed; and the results \<^verbatim>\<open>run_single_scorer\<close> makes of such responses.
\<close>

definition gate_response :: "string \<Rightarrow> pydict" where
  "gate_response act =
     [(''fit_score'', JInt 1), (''next_action'', JStr act), (''fit_reasons'', JList []),
      (''gaps_risks'', JList [JStr ''Requires active security clearance'']),
      (''non_obvious_matches'', JList []), (''keywords_to_tailor_resume'', JList []),
      (''questions_to_verify'', JList []), (''confidence'', JStr ''N/A''),
      (''needs_human_input'', JList []), (''debug'', JDict [])]"

definition clear_response :: pydict where
  "clear_response =
     [(''fit_score'', JInt 4), (''next_action'', JStr ''Apply''), (''fit_reasons'', JList []),
      (''gaps_risks'', JList []),
      (''non_obvious_matches'', JList []), (''keywords_to_tailor_resume'', JList []),
      (''questions_to_verify'', JList []), (''confidence'', JStr ''N/A''),
      (''needs_human_input'', JList []),
      (''debug'', JDict [(''hard_gates_passed'', JBool True), (''notes'', JStr ''ok'')])]"

definition result_of :: "string \<Rightarrow> int \<Rightarrow> string \<Rightarrow> pydict \<Rightarrow> scored" where
  "result_of scorer_engine fit act d =
     \<lparr>engine = scorer_engine, fit_score = fit, next_action = act, confidence = JStr ''N/A'',
      raw_score = d,
      fit_reasons = dict_get_default d ''fit_reasons'' (JList []),
      gaps_risks = dict_get_default d ''gaps_risks'' (JList []),
      needs_human_input = dict_get_default d ''needs_human_input'' (JList [])\<rparr>"



text \<open>The flags collected so far name distinct engines, and only \<open>b\<close> is flagged.\<close>

definition only_flagged :: "string \<Rightarrow> (string \<times> bool) list \<Rightarrow> bool" where
  "only_flagged b acc = (distinct (map fst acc) \<and> (\<forall>kv \<in> set acc. snd kv \<longrightarrow> fst kv = b))"

fun within :: "string set \<Rightarrow> store_call \<Rightarrow> bool" where
  "within names (UpdateRecord table record_id payload ok) = (fst ` set payload \<subseteq> names)"
| "within names (ListRecords table max_records formula) = True"
| "within names (FindOne table) = True"

definition grows :: "string set \<Rightarrow> world \<Rightarrow> world \<Rightarrow> bool" where
  "grows names w w' = (\<exists>xs. store_calls w' = store_calls w @ xs \<and> list_all (within names) xs)"

definition example_sample :: "job_record list" where
  "example_sample = [\<lparr>rec_id = ''recS'', rec_fields = [(''JobURL'', JStr ''https://x/1'')]\<rparr>]"

definition job_without_description :: job_record where
  "job_without_description = \<lparr>rec_id = ''recA'', rec_fields = [(''JobURL'', JStr ''https://x/2'')]\<rparr>"

definition job_cached :: "string \<Rightarrow> job_record" where
  "job_cached jobjson =
     \<lparr>rec_id = ''recD'',
      rec_fields = [(''JobDescriptionRaw'', JStr ''<p>hi</p>''), (''JobDescriptionText'', JStr ''hi''),
                    (''JobJSON'', JStr jobjson)]\<rparr>"


definition example_scorer_input :: json where
  "example_scorer_input =
     JDict [(''runtime'', JDict [(''model'', JStr ''gpt''), (''temperature'', JInt 0)])]"

definition known_engine :: "string \<Rightarrow> bool" where
  "known_engine e = (e = ''v1'' \<or> e = ''perfecter_v1'')"

definition active_engines :: "string \<Rightarrow> string list \<Rightarrow> string list" where
  "active_engines scorer_engine ab_test = (if ab_test \<noteq> [] then ab_test else [scorer_engine])"

definition no_profile_env :: env where
  "no_profile_env = (example_env ''nope'' example_sample [])\<lparr>find_one := (\<lambda>table. Inr None)\<rparr>"

section \<open>Properties\<close>

subsection \<open>Fit score and next action\<close>

lemma normalize_fit_score_range:
  "normalize_fit_score score = Inr n \<Longrightarrow> 1 \<le> n \<and> n \<le> 5"
  by (auto simp: normalize_fit_score_def split: sum.splits)

lemma action_of_fit_valid: "action_of_fit n \<in> valid_actions"
  by (simp add: action_of_fit_def valid_actions_def)

lemma normalize_next_action_valid: "normalize_next_action d n \<in> valid_actions"
  by (simp add: normalize_next_action_def action_of_fit_valid split: option.splits)

lemma score_to_result_fields:
  assumes "score_to_result E eng (JDict d) = Inr (ScoredResult r)"
  shows "normalize_fit_score d = Inr (fit_score r)"
    and "next_action r = normalize_next_action d (fit_score r)"
    and "raw_score r = d"
  using assms by (auto simp: score_to_result_def split: sum.splits)

lemma py_strip_Skip: "py_strip '' Skip '' = ''Skip''"
  by (simp add: py_strip_def py_lstrip_def py_rstrip_def py_isspace_def)

text \<open>
  C1. The claim: every raw fit-score value is normalised to an integer between 1 and 5,
  with 3 for a value that is absent or not a number, and the normalisation raises
  nothing. The code reaches that for every value but one kind: \<^verbatim>\<open>int()\<close> of an infinite
  float raises \<^verbatim>\<open>OverflowError\<close>, which the handler of line 267 does not name. A response
  whose \<^verbatim>\<open>fit_score\<close> is \<^verbatim>\<open>1e999\<close> therefore leaves \<^verbatim>\<open>run_single_scorer\<close> with that
  exception instead of a score, whatever else it holds.
\<close>

theorem fit_score_infinity_raises:
  "score_to_result E scorer_engine (JDict ((''fit_score'', JFloat PosInf) # d)) = Inl OverflowError"
  by (simp add: score_to_result_def normalize_fit_score_def raw_fit_score_def dict_get_def
      int_or_default_def)

text \<open>
  C2, as stated, fails: a \<^verbatim>\<open>next_action\<close> string with white space around a canonical
  literal is not one of the four literals, yet it is not replaced by the mapping; the
  code strips it first (line 272) and keeps the stripped literal. With fit score 5 the
  response \<^verbatim>\<open>" Skip "\<close> gives \<^verbatim>\<open>"Skip"\<close>, where the mapping gives \<^verbatim>\<open>"Apply Now"\<close>.
\<close>

theorem padded_next_action_kept:
  "'' Skip '' \<notin> valid_actions
   \<and> normalize_next_action [(''next_action'', JStr '' Skip '')] 5 = ''Skip''
   \<and> action_of_fit 5 = ''Apply Now''"
  by (simp add: normalize_next_action_def next_action_raw_def dict_get_def py_strip_Skip
      valid_actions_def action_of_fit_def)

text \<open>
  C2, amended: whenever \<^verbatim>\<open>run_single_scorer\<close> turns a validated response into a result
  (lines 261 to 306), the next action of the result is one of the four canonical
  literals and its fit score lies between 1 and 5; when the response's \<^verbatim>\<open>next_action\<close>
  is a string that after stripping surrounding white space is one of the four literals,
  the next action is that stripped string, whatever the fit score; and when it is not a
  string, or is a string that after stripping is not one of the four literals, the next
  action is the mapping of the fit score (5 to Apply Now, 4 to Apply, 3 and 2 to Network
  First, 1 to Skip).
\<close>

theorem next_action_canonical_or_mapped:
  assumes "score_to_result E scorer_engine (JDict d) = Inr (ScoredResult r)"
  shows "next_action r \<in> valid_actions
       \<and> 1 \<le> fit_score r \<and> fit_score r \<le> 5
       \<and> (\<forall>s. dict_get d ''next_action'' = JStr s \<longrightarrow> py_strip s \<in> valid_actions
            \<longrightarrow> next_action r = py_strip s)
       \<and> ((\<forall>s. dict_get d ''next_action'' = JStr s \<longrightarrow> py_strip s \<notin> valid_actions)
            \<longrightarrow> next_action r = action_of_fit (fit_score r))
       \<and> action_of_fit 5 = ''Apply Now'' \<and> action_of_fit 4 = ''Apply''
       \<and> action_of_fit 3 = ''Network First'' \<and> action_of_fit 2 = ''Network First''
       \<and> action_of_fit 1 = ''Skip''"
proof -
  note f = score_to_result_fields [OF assms]
  have "next_action r \<in> valid_actions"
    by (simp add: f(2) normalize_next_action_valid)
  moreover have "1 \<le> fit_score r \<and> fit_score r \<le> 5"
    using f(1) by (rule normalize_fit_score_range)
  moreover have "\<forall>s. dict_get d ''next_action'' = JStr s \<longrightarrow> py_strip s \<in> valid_actions
            \<longrightarrow> next_action r = py_strip s"
    by (simp add: f(2) normalize_next_action_def next_action_raw_def)
  moreover have "next_action r = action_of_fit (fit_score r)"
    if "\<forall>s. dict_get d ''next_action'' = JStr s \<longrightarrow> py_strip s \<notin> valid_actions"
    using that
    by (auto simp: f(2) normalize_next_action_def next_action_raw_def
        split: option.splits json.splits)
  moreover have "action_of_fit 5 = ''Apply Now'' \<and> action_of_fit 4 = ''Apply''
       \<and> action_of_fit 3 = ''Network First'' \<and> action_of_fit 2 = ''Network First''
       \<and> action_of_fit 1 = ''Skip''"
    by (simp add: action_of_fit_def)
  ultimately show ?thesis by blast
qed

subsection \<open>Arbitration\<close>


lemma keys_dict_set: "fst ` set (dict_set d k v) = insert k (fst ` set d)"
  by (induction d k v rule: dict_set.induct) auto

lemma distinct_dict_set: "distinct (map fst d) \<Longrightarrow> distinct (map fst (dict_set d k v))"
  by (induction d k v rule: dict_set.induct) (auto simp: keys_dict_set)

lemma set_dict_set: "set (dict_set d k v) \<subseteq> insert (k, v) (set d)"
  by (induction d k v rule: dict_set.induct) auto

lemma in_dict_set: "(k, v) \<in> set (dict_set d k v)"
  by (induction d k v rule: dict_set.induct) auto

lemma kept_dict_set: "(k', v') \<in> set d \<Longrightarrow> k' \<noteq> k \<Longrightarrow> (k', v') \<in> set (dict_set d k v)"
  by (induction d k v rule: dict_set.induct) auto

lemma only_flagged_filter:
  "only_flagged b acc \<Longrightarrow> (b, True) \<in> set acc \<Longrightarrow> map fst (filter snd acc) = [b]"
proof (induction acc)
  case Nil
  then show ?case by simp
next
  case (Cons kv acc)
  obtain k v where kv: "kv = (k, v)" by (cases kv)
  from Cons.prems have ob: "only_flagged b acc"
    by (auto simp: only_flagged_def)
  show ?case
  proof (cases "(b, True) \<in> set acc")
    case True
    with Cons.prems kv have "k \<noteq> b" by (force simp: only_flagged_def)
    with Cons.prems kv have "\<not> v" by (auto simp: only_flagged_def)
    with Cons.IH [OF ob True] kv show ?thesis by simp
  next
    case False
    with Cons.prems kv have kb: "k = b" "v" by auto
    have "filter snd acc = []"
    proof (rule ccontr)
      assume "filter snd acc \<noteq> []"
      then obtain x where x: "x \<in> set acc" "snd x"
        by (metis filter_False)
      with ob have "fst x = b" by (auto simp: only_flagged_def)
      with x(2) have "x = (b, True)" by (simp add: prod_eq_iff)
      with x(1) False show False by simp
    qed
    with kv kb show ?thesis by simp
  qed
qed

lemma hard_gate_failures_only:
  assumes "map_of rs b = Some rb" "is_hard_gate_failure rb b = Inr True"
    and "\<forall>e \<in> set es. e \<noteq> b \<longrightarrow> (\<forall>r. map_of rs e = Some r \<longrightarrow> is_hard_gate_failure r e = Inr False)"
    and "only_flagged b acc"
    and "b \<in> set es \<or> (b, True) \<in> set acc"
  shows "\<exists>hgf. hard_gate_failures rs es acc = Inr hgf \<and> only_flagged b hgf \<and> (b, True) \<in> set hgf"
  using assms(3-5)
proof (induction es arbitrary: acc)
  case Nil
  then show ?case by simp
next
  case (Cons e es)
  show ?case
  proof (cases "map_of rs e")
    case None
    with assms(1) have "e \<noteq> b" by auto
    with Cons.prems have "b \<in> set es \<or> (b, True) \<in> set acc" by auto
    with Cons.IH [of acc] Cons.prems None show ?thesis by simp
  next
    case (Some r)
    show ?thesis
    proof (cases "e = b")
      case True
      with Some assms(1,2) have r: "is_hard_gate_failure r e = Inr True" by simp
      have ob: "only_flagged b (dict_set acc e True)"
        using Cons.prems(2) True set_dict_set [of acc e True]
        by (auto simp: only_flagged_def distinct_dict_set)
      have "(b, True) \<in> set (dict_set acc e True)"
        using True in_dict_set by metis
      with Cons.IH [of "dict_set acc e True"] Cons.prems(1) ob Some r
      show ?thesis by simp
    next
      case False
      with Some Cons.prems(1) have r: "is_hard_gate_failure r e = Inr False" by simp
      have ob: "only_flagged b (dict_set acc e False)"
        using Cons.prems(2) set_dict_set [of acc e False]
        by (auto simp: only_flagged_def distinct_dict_set)
      have "b \<in> set es \<or> (b, True) \<in> set (dict_set acc e False)"
        using Cons.prems(3) False kept_dict_set [of b True acc e False] by auto
      with Cons.IH [of "dict_set acc e False"] Cons.prems(1) ob Some r
      show ?thesis by simp
    qed
  qed
qed

lemma example_results:
  "score_to_result (example_env ''nope'' [] []) ''v1'' (JDict (gate_response act))
     = Inr (ScoredResult (result_of ''v1'' 1 (normalize_next_action (gate_response act) 1) (gate_response act)))"
  "score_to_result (example_env ''nope'' [] []) ''perfecter_v1'' (JDict clear_response)
     = Inr (ScoredResult (result_of ''perfecter_v1'' 4 ''Apply'' clear_response))"
  "is_hard_gate_failure (result_of ''v1'' 1 act (gate_response act)) ''v1'' = Inr True"
  "is_hard_gate_failure (result_of ''perfecter_v1'' 4 ''Apply'' clear_response) ''perfecter_v1'' = Inr False"
     apply (simp add: score_to_result_def normalize_fit_score_def raw_fit_score_def dict_get_def
      int_or_default_def normalize_confidence_def dict_get_default_def gate_response_def result_of_def)
    apply (simp add: score_to_result_def normalize_fit_score_def raw_fit_score_def dict_get_def
      int_or_default_def normalize_confidence_def dict_get_default_def clear_response_def result_of_def
      normalize_next_action_def next_action_raw_def py_strip_def py_lstrip_def py_rstrip_def
      py_isspace_def valid_actions_def)
   apply (simp add: is_hard_gate_failure_def result_of_def gate_response_def dict_get_default_def
      combined_text_def gate_keywords_def py_lower_def py_lower_char_def)
  apply (simp add: is_hard_gate_failure_def result_of_def clear_response_def dict_get_default_def)
  done

text \<open>
  C4, as stated, fails in its last part: the winner is the engine that reports the hard
  gate, but its next action is whatever its own result carries. A heuristic-engine
  response with fit score 1, a clearance gap and the canonical next action
  \<^verbatim>\<open>"Network First"\<close> is a hard-gate failure; it wins against a fit score of 4, and the
  winner's next action is \<^verbatim>\<open>"Network First"\<close>, not \<^verbatim>\<open>"Skip"\<close>.
\<close>

theorem gate_winner_not_skip:
  "score_to_result (example_env ''nope'' [] []) ''v1'' (JDict (gate_response ''Network First''))
     = Inr (ScoredResult (result_of ''v1'' 1 ''Network First'' (gate_response ''Network First'')))
   \<and> is_hard_gate_failure (result_of ''v1'' 1 ''Network First'' (gate_response ''Network First'')) ''v1''
       = Inr True
   \<and> is_hard_gate_failure (result_of ''perfecter_v1'' 4 ''Apply'' clear_response) ''perfecter_v1''
       = Inr False
   \<and> select_ab_winner
        [(''perfecter_v1'', result_of ''perfecter_v1'' 4 ''Apply'' clear_response),
         (''v1'', result_of ''v1'' 1 ''Network First'' (gate_response ''Network First''))]
        [''perfecter_v1'', ''v1''] = Inr ''v1''
   \<and> next_action (result_of ''v1'' 1 ''Network First'' (gate_response ''Network First''))
       = ''Network First''"
proof -
  have "normalize_next_action (gate_response ''Network First'') 1 = ''Network First''"
    by (simp add: normalize_next_action_def next_action_raw_def gate_response_def dict_get_def
        py_strip_def py_lstrip_def py_rstrip_def py_isspace_def valid_actions_def)
  then show ?thesis
    using example_results(1) [of "''Network First''"]
    by (simp add: example_results(3,4) select_ab_winner_def) (simp add: result_of_def)
qed

text \<open>
  C4, amended: when exactly one of the engines that were run reports a hard-gate failure,
  \<^verbatim>\<open>select_ab_winner\<close> returns that engine, whatever the fit scores of the others. The
  winner's next action is the one of its own result: it is \<^verbatim>\<open>"Skip"\<close> whenever that result
  has fit score 1 and its response gave no canonical next action (so that the action is
  mapped from the fit score), as in the specification's example.
\<close>

theorem sole_gate_failure_wins:
  assumes "b \<in> set ab_test_engines" "map_of rs b = Some rb"
    and "is_hard_gate_failure rb b = Inr True"
    and "\<forall>e \<in> set ab_test_engines. e \<noteq> b \<longrightarrow>
           (\<forall>r. map_of rs e = Some r \<longrightarrow> is_hard_gate_failure r e = Inr False)"
  shows "select_ab_winner rs ab_test_engines = Inr b
       \<and> (\<forall>E d. score_to_result E b (JDict d) = Inr (ScoredResult rb) \<longrightarrow> fit_score rb = 1 \<longrightarrow>
              (\<forall>s. dict_get d ''next_action'' = JStr s \<longrightarrow> py_strip s \<notin> valid_actions) \<longrightarrow>
              next_action rb = ''Skip'')"
proof -
  have "only_flagged b []" by (simp add: only_flagged_def)
  with hard_gate_failures_only [OF assms(2,3,4), of "[]"] assms(1)
  obtain hgf where h: "hard_gate_failures rs ab_test_engines [] = Inr hgf" "only_flagged b hgf"
    "(b, True) \<in> set hgf"
    by auto
  have "map fst (filter snd hgf) = [b]"
    using h(2,3) by (rule only_flagged_filter)
  then have win: "select_ab_winner rs ab_test_engines = Inr b"
    by (simp add: select_ab_winner_def h(1))
  have "next_action rb = ''Skip''"
    if "score_to_result E b (JDict d) = Inr (ScoredResult rb)" "fit_score rb = 1"
      "\<forall>s. dict_get d ''next_action'' = JStr s \<longrightarrow> py_strip s \<notin> valid_actions" for E d
    using score_to_result_fields(2) [OF that(1)] that(2,3)
    by (auto simp: normalize_next_action_def next_action_raw_def action_of_fit_def
        split: option.splits json.splits)
  with win show ?thesis by blast
qed

theorem sole_gate_failure_wins_witness:
  "select_ab_winner
     [(''perfecter_v1'', result_of ''perfecter_v1'' 4 ''Apply'' clear_response),
      (''v1'', result_of ''v1'' 1 ''Skip'' (gate_response ''skip it''))]
     [''perfecter_v1'', ''v1''] = Inr ''v1''
   \<and> score_to_result (example_env ''nope'' [] []) ''v1'' (JDict (gate_response ''skip it''))
       = Inr (ScoredResult (result_of ''v1'' 1 ''Skip'' (gate_response ''skip it'')))
   \<and> next_action (result_of ''v1'' 1 ''Skip'' (gate_response ''skip it'')) = ''Skip''"
proof -
  let ?rb = "result_of ''v1'' 1 ''Skip'' (gate_response ''skip it'')"
  let ?ra = "result_of ''perfecter_v1'' 4 ''Apply'' clear_response"
  have na: "normalize_next_action (gate_response ''skip it'') 1 = ''Skip''"
    by (simp add: normalize_next_action_def next_action_raw_def gate_response_def dict_get_def
        py_strip_def py_lstrip_def py_rstrip_def py_isspace_def valid_actions_def action_of_fit_def)
  have s: "score_to_result (example_env ''nope'' [] []) ''v1'' (JDict (gate_response ''skip it''))
       = Inr (ScoredResult ?rb)"
    using example_results(1) [of "''skip it''"] na by simp
  have g: "is_hard_gate_failure ?rb ''v1'' = Inr True"
    by (simp add: is_hard_gate_failure_def result_of_def gate_response_def dict_get_default_def
        combined_text_def gate_keywords_def py_lower_def py_lower_char_def)
  have strip: "py_strip ''skip it'' \<notin> valid_actions"
    by (simp add: py_strip_def py_lstrip_def py_rstrip_def py_isspace_def valid_actions_def)
  have d: "\<forall>s. dict_get (gate_response ''skip it'') ''next_action'' = JStr s \<longrightarrow> py_strip s \<notin> valid_actions"
    using strip by (simp add: gate_response_def dict_get_def)
  have "select_ab_winner [(''perfecter_v1'', ?ra), (''v1'', ?rb)] [''perfecter_v1'', ''v1''] = Inr ''v1''
      \<and> (\<forall>E d. score_to_result E ''v1'' (JDict d) = Inr (ScoredResult ?rb) \<longrightarrow> fit_score ?rb = 1 \<longrightarrow>
              (\<forall>s. dict_get d ''next_action'' = JStr s \<longrightarrow> py_strip s \<notin> valid_actions) \<longrightarrow>
              next_action ?rb = ''Skip'')"
    by (rule sole_gate_failure_wins) (simp_all add: g example_results(4))
  with s d show ?thesis
    by (simp add: result_of_def)
qed

theorem next_action_canonical_or_mapped_witness:
  "score_to_result (example_env ''nope'' [] []) ''v1'' (JDict (gate_response ''skip it''))
     = Inr (ScoredResult (result_of ''v1'' 1 ''Skip'' (gate_response ''skip it'')))
   \<and> next_action (result_of ''v1'' 1 ''Skip'' (gate_response ''skip it'')) \<in> valid_actions
   \<and> next_action (result_of ''v1'' 1 ''Skip'' (gate_response ''skip it''))
       = action_of_fit (fit_score (result_of ''v1'' 1 ''Skip'' (gate_response ''skip it'')))"
proof -
  let ?rb = "result_of ''v1'' 1 ''Skip'' (gate_response ''skip it'')"
  have na: "normalize_next_action (gate_response ''skip it'') 1 = ''Skip''"
    by (simp add: normalize_next_action_def next_action_raw_def gate_response_def dict_get_def
        py_strip_def py_lstrip_def py_rstrip_def py_isspace_def valid_actions_def action_of_fit_def)
  have s: "score_to_result (example_env ''nope'' [] []) ''v1'' (JDict (gate_response ''skip it''))
       = Inr (ScoredResult ?rb)"
    using example_results(1) [of "''skip it''"] na by simp
  have strip: "py_strip ''skip it'' \<notin> valid_actions"
    by (simp add: py_strip_def py_lstrip_def py_rstrip_def py_isspace_def valid_actions_def)
  have d: "\<forall>s. dict_get (gate_response ''skip it'') ''next_action'' = JStr s \<longrightarrow> py_strip s \<notin> valid_actions"
    using strip by (simp add: gate_response_def dict_get_def)
  from next_action_canonical_or_mapped [OF s] d s show ?thesis
    by blast
qed

subsection \<open>The comparison artifact\<close>




lemma strip_debug_others:
  "(e, d) \<in> set (strip_debug winner_engine engs) \<Longrightarrow> e \<noteq> winner_engine \<Longrightarrow> ''debug'' \<notin> fst ` set d"
  by (auto simp: strip_debug_def dict_del_def split: if_splits)








subsection \<open>What the writes and the scorer calls leave alone\<close>


lemma filter_fields_llm [simp]: "llm_calls (snd (filter_fields p names w)) = llm_calls w"
  by (simp add: filter_fields_def split: prod.splits)

lemma call_update_llm [simp]: "llm_calls (snd (call_update E rid p w)) = llm_calls w"
  by (simp add: call_update_def Let_def)

lemma safe_update_llm [simp]: "llm_calls (snd (safe_update E A rid p w)) = llm_calls w"
proof -
  obtain f w1 where f: "filter_fields p (arg_table_field_names A) w = (f, w1)"
    by (cases "filter_fields p (arg_table_field_names A) w")
  then have w1: "llm_calls w1 = llm_calls w"
    using filter_fields_llm [of p "arg_table_field_names A" w] by simp
  obtain r w2 where c: "call_update E rid f w1 = (r, w2)"
    by (cases "call_update E rid f w1")
  then have w2: "llm_calls w2 = llm_calls w"
    using call_update_llm [of E rid f w1] w1 by simp
  obtain r3 w3 where c3: "call_update E rid (retry_fields f) w2 = (r3, w3)"
    by (cases "call_update E rid (retry_fields f) w2")
  then have w3: "llm_calls w3 = llm_calls w"
    using call_update_llm [of E rid "retry_fields f" w2] w2 by simp
  show ?thesis
    by (simp add: safe_update_def f c c3 w1 w2 w3 split: option.splits)
qed

lemma filtered_update_llm [simp]: "llm_calls (filtered_update E A rid p w) = llm_calls w"
proof -
  obtain f w1 where f: "filter_fields p (arg_table_field_names A) w = (f, w1)"
    by (cases "filter_fields p (arg_table_field_names A) w")
  then have w1: "llm_calls w1 = llm_calls w"
    using filter_fields_llm [of p "arg_table_field_names A" w] by simp
  show ?thesis
    by (simp add: filtered_update_def f w1)
qed

lemma write_parsed_fields_llm [simp]: "llm_calls (write_parsed_fields E A rid parsed w) = llm_calls w"
  by (simp add: write_parsed_fields_def)

lemma record_failure_llm [simp]: "llm_calls (record_failure E A rid x w) = llm_calls w"
  by (simp add: record_failure_def)

lemma write_core_fields_llm [simp]:
  "llm_calls (write_core_fields E A rid nt r w) = llm_calls w"
  by (simp add: write_core_fields_def Let_def split_beta)

lemma write_results_llm [simp]:
  "llm_calls (write_results E A rid nt r rs we si w) = llm_calls w"
  by (simp add: write_results_def split: sum.splits)



lemma call_llm_det:
  "llm_calls w = llm_calls w' \<Longrightarrow>
     fst (call_llm E s m p w) = fst (call_llm E s m p w')
     \<and> llm_calls (snd (call_llm E s m p w)) = llm_calls (snd (call_llm E s m p w'))"
  by (simp add: call_llm_def)










subsection \<open>The record-store calls of a record\<close>

lemma grows_refl [simp]: "grows names w w"
  by (simp add: grows_def)

lemma grows_trans: "grows names w w1 \<Longrightarrow> grows names w1 w2 \<Longrightarrow> grows names w w2"
  by (auto simp: grows_def)

lemma grows_same: "store_calls w' = store_calls w \<Longrightarrow> grows names w w'"
  by (simp add: grows_def)

lemma filter_fields_to_table_eq:
  "filter_fields_to_table payload names =
     (filter (\<lambda>kv. fst kv \<in> names) payload,
      map (\<lambda>kv. ''FIELD_DROP '' @ fst kv) (filter (\<lambda>kv. fst kv \<notin> names) payload))"
  by (induction payload names rule: filter_fields_to_table.induct) (auto simp: Let_def)

lemma filter_fields_eq:
  "filter_fields payload names w =
     (filter (\<lambda>kv. fst kv \<in> names) payload,
      w\<lparr>printed := printed w @ map (\<lambda>kv. ''FIELD_DROP '' @ fst kv) (filter (\<lambda>kv. fst kv \<notin> names) payload)\<rparr>)"
  by (simp add: filter_fields_def filter_fields_to_table_eq)

lemma filter_fields_store [simp]: "store_calls (snd (filter_fields p names w)) = store_calls w"
  by (simp add: filter_fields_eq)

lemma call_update_store:
  "store_calls (snd (call_update E rid p w))
     = store_calls w @ [UpdateRecord (AIRTABLE_TABLE_JOBS E) rid p (fst (call_update E rid p w) = None)]"
  by (simp add: call_update_def Let_def)

lemma call_llm_store [simp]: "store_calls (snd (call_llm E s m p w)) = store_calls w"
  by (simp add: call_llm_def)

lemma safe_update_grows: "grows (arg_table_field_names A) w (snd (safe_update E A rid p w))"
proof -
  let ?names = "arg_table_field_names A"
  let ?f = "filter (\<lambda>kv. fst kv \<in> ?names) p"
  obtain w1 where f: "filter_fields p ?names w = (?f, w1)" and w1: "store_calls w1 = store_calls w"
    by (simp add: filter_fields_eq)
  have k: "fst ` set ?f \<subseteq> ?names" "fst ` set (retry_fields ?f) \<subseteq> ?names"
    by (auto simp: retry_fields_def)
  obtain r w2 where c: "call_update E rid ?f w1 = (r, w2)"
    by (cases "call_update E rid ?f w1")
  with call_update_store [of E rid ?f w1] w1
  have w2: "store_calls w2 = store_calls w @ [UpdateRecord (AIRTABLE_TABLE_JOBS E) rid ?f (r = None)]"
    by simp
  obtain r3 w3 where c3: "call_update E rid (retry_fields ?f) w2 = (r3, w3)"
    by (cases "call_update E rid (retry_fields ?f) w2")
  with call_update_store [of E rid "retry_fields ?f" w2] w2
  have w3: "store_calls w3 = store_calls w @ [UpdateRecord (AIRTABLE_TABLE_JOBS E) rid ?f (r = None),
      UpdateRecord (AIRTABLE_TABLE_JOBS E) rid (retry_fields ?f) (r3 = None)]"
    by simp
  show ?thesis
    using k by (auto simp: safe_update_def f c c3 w1 w2 w3 grows_def split: option.splits)
qed

lemma filtered_update_grows: "grows (arg_table_field_names A) w (filtered_update E A rid p w)"
proof -
  let ?names = "arg_table_field_names A"
  let ?f = "filter (\<lambda>kv. fst kv \<in> ?names) p"
  obtain w1 where f: "filter_fields p ?names w = (?f, w1)" and w1: "store_calls w1 = store_calls w"
    by (simp add: filter_fields_eq)
  have "grows ?names w w1" using w1 by (rule grows_same)
  then show ?thesis
    using safe_update_grows [of A w1 E rid ?f]
    by (auto simp: filtered_update_def f intro: grows_trans)
qed

lemma write_parsed_fields_grows: "grows (arg_table_field_names A) w (write_parsed_fields E A rid parsed w)"
  by (simp add: write_parsed_fields_def filtered_update_grows)

lemma record_failure_grows: "grows (arg_table_field_names A) w (record_failure E A rid x w)"
  by (simp add: record_failure_def filtered_update_grows)

lemma filter_then_update_grows:
  "grows (arg_table_field_names A) w (snd (safe_update E A rid (fst (filter_fields p names w)) (snd (filter_fields p names w))))"
proof -
  have "grows (arg_table_field_names A) w (snd (filter_fields p names w))"
    by (rule grows_same) simp
  then show ?thesis
    using safe_update_grows grows_trans by blast
qed

lemma write_core_fields_grows:
  "grows (arg_table_field_names A) w (write_core_fields E A rid nt r w)"
proof -
  let ?n = "arg_table_field_names A"
  define w1 where "w1 = snd (safe_update E A rid
      ([(''FitScore'', JInt (fit_score r)), (''Status'', JStr ''Scored''), (''ScoringStatus'', JStr ''SCORED'')]
       @ (if arg_run_id A \<noteq> [] then [(''RunID'', JStr (arg_run_id A))] else [])) w)"
  define w2 where "w2 = snd (safe_update E A rid [(''NextAction'', JStr (next_action r))] w1)"
  define w3 where "w3 = (if fst (safe_update E A rid [(''NextAction'', JStr (next_action r))] w1) then w2
      else snd (safe_update E A rid (fst (filter_fields [(''NextAction'', JStr ''Review'')] ?n w2))
                  (snd (filter_fields [(''NextAction'', JStr ''Review'')] ?n w2))))"
  define w4 where "w4 = (if optional_fields_c E nt r \<noteq> [] then
       snd (safe_update E A rid (fst (filter_fields (optional_fields_c E nt r) ?n w3))
              (snd (filter_fields (optional_fields_c E nt r) ?n w3)))
     else w3)"
  have g1: "grows ?n w w1" unfolding w1_def by (rule safe_update_grows)
  have g2: "grows ?n w1 w2" unfolding w2_def by (rule safe_update_grows)
  have g3: "grows ?n w2 w3" unfolding w3_def by (simp add: filter_then_update_grows)
  have g4: "grows ?n w3 w4" unfolding w4_def by (simp add: filter_then_update_grows)
  have g: "grows ?n w w4" using g1 g2 g3 g4 grows_trans by blast
  have "write_core_fields E A rid nt r w = w4"
    by (simp add: write_core_fields_def Let_def split_beta w1_def w2_def w3_def w4_def)
  with g show ?thesis by simp
qed

lemma write_results_grows:
  "grows (arg_table_field_names A) w (write_results E A rid nt r rs we si w)"
proof -
  have "grows (arg_table_field_names A) w (filtered_update E A rid p (write_core_fields E A rid nt r w))" for p
    using write_core_fields_grows filtered_update_grows grows_trans by blast
  then show ?thesis
    by (simp add: write_results_def write_core_fields_grows split: sum.splits)
qed

lemma run_single_scorer_store [simp]: "store_calls (snd (run_single_scorer E e si w)) = store_calls w"
  by (auto simp: run_single_scorer_def call_llm_def Let_def split: sum.splits bool.splits)

lemma run_engines_store [simp]: "store_calls (snd (run_engines E es si rs w)) = store_calls w"
proof (induction es arbitrary: rs w)
  case Nil
  then show ?case by simp
next
  case (Cons e es)
  obtain x w1 where a: "run_single_scorer E e si w = (x, w1)"
    by (cases "run_single_scorer E e si w")
  with run_single_scorer_store [of E e si w] have "store_calls w1 = store_calls w" by simp
  with Cons.IH show ?case
    by (simp add: a split: sum.splits single_result.splits)
qed

lemma run_scorers_store [simp]: "store_calls (snd (run_scorers E A si w)) = store_calls w"
proof -
  obtain x w1 where a: "run_single_scorer E (arg_scorer_engine A) si w = (x, w1)"
    by (cases "run_single_scorer E (arg_scorer_engine A) si w")
  with run_single_scorer_store [of E "arg_scorer_engine A" si w]
  have e1: "store_calls w1 = store_calls w" by simp
  obtain y v1 where c: "run_engines E (arg_ab_test A) si [] w = (y, v1)"
    by (cases "run_engines E (arg_ab_test A) si [] w")
  with run_engines_store [of E "arg_ab_test A" si "[]" w]
  have e2: "store_calls v1 = store_calls w" by simp
  show ?thesis
    by (simp add: run_scorers_def a c e1 e2 split: sum.splits single_result.splits option.splits)
qed

lemma scoring_phase_grows:
  "grows (arg_table_field_names A) w (snd (scoring_phase E A rid parsed cleaned w))"
proof -
  let ?n = "arg_table_field_names A"
  let ?si = "scorer_input_of E A parsed cleaned"
  let ?w1 = "write_parsed_fields E A rid parsed w"
  obtain x w2 where a: "run_scorers E A ?si ?w1 = (x, w2)"
    by (cases "run_scorers E A ?si ?w1")
  with run_scorers_store [of E A ?si ?w1] have "store_calls w2 = store_calls ?w1" by simp
  then have "grows ?n ?w1 w2" by (rule grows_same)
  with write_parsed_fields_grows [of A w E rid parsed] have g: "grows ?n w w2"
    using grows_trans by blast
  have g1: "grows ?n w (record_failure E A rid e w2)" for e
    using g record_failure_grows grows_trans by blast
  have g2: "grows ?n w (write_results E A rid nt r rs we ?si w2)" for nt r rs we
    using g write_results_grows grows_trans by blast
  show ?thesis
    using g g1 g2
    by (simp add: scoring_phase_def Let_def a split: sum.splits option.splits prod.splits)
qed

lemma jobjson_phase_grows:
  "grows (arg_table_field_names A) w (snd (jobjson_phase E A rid flds jtext w))"
proof -
  let ?n = "arg_table_field_names A"
  obtain x w1 where a: "call_llm E Structurer (OPENAI_MODEL_PARSE E) (JOB_PARSE_PROMPT_with E jtext) w = (x, w1)"
    by (cases "call_llm E Structurer (OPENAI_MODEL_PARSE E) (JOB_PARSE_PROMPT_with E jtext) w")
  with call_llm_store [of E Structurer "OPENAI_MODEL_PARSE E" "JOB_PARSE_PROMPT_with E jtext" w]
  have "store_calls w1 = store_calls w" by simp
  then have g: "grows ?n w w1" by (rule grows_same)
  have g1: "grows ?n w (filtered_update E A rid p w1)" for p
    using g filtered_update_grows grows_trans by blast
  have g2: "grows ?n w (filtered_update E A rid p (filtered_update E A rid q w1))" for p q
    using g1 filtered_update_grows grows_trans by blast
  show ?thesis
    using g g1 g2
    by (simp add: jobjson_phase_def Let_def a split: sum.splits)
qed

lemma jobtext_phase_grows:
  "grows (arg_table_field_names A) w (snd (jobtext_phase m E A rid flds raw w))"
proof -
  let ?n = "arg_table_field_names A"
  have g1: "grows ?n w (filtered_update E A rid p w)" for p
    by (rule filtered_update_grows)
  have g2: "grows ?n w (filtered_update E A rid p (filtered_update E A rid q w))" for p q
    using g1 filtered_update_grows grows_trans by blast
  show ?thesis
    using g1 g2
    by (simp add: jobtext_phase_def Let_def split: sum.splits)
qed

lemma score_job_record_with_grows:
  "grows (arg_table_field_names A) w (snd (score_job_record_with m E A r w))"
proof -
  let ?n = "arg_table_field_names A"
  let ?rid = "rec_id r" and ?f = "rec_fields r"
  show ?thesis
  proof (cases "get_stripped ?f ''JobDescriptionRaw''")
    case (Inl e)
    then show ?thesis by (simp add: score_job_record_with_def)
  next
    case raw: (Inr raw)
    show ?thesis
    proof (cases "raw = []")
      case True
      with raw show ?thesis by (simp add: score_job_record_with_def filtered_update_grows)
    next
      case False
      obtain t w1 where a: "jobtext_phase m E A ?rid ?f raw w = (t, w1)"
        by (cases "jobtext_phase m E A ?rid ?f raw w")
      with jobtext_phase_grows [of A w m E ?rid ?f raw] have g1: "grows ?n w w1" by simp
      show ?thesis
      proof (cases t)
        case (Inl e)
        with raw False a g1 show ?thesis by (simp add: score_job_record_with_def)
      next
        case jt: (Inr jtext)
        obtain p w2 where c: "jobjson_phase E A ?rid ?f jtext w1 = (p, w2)"
          by (cases "jobjson_phase E A ?rid ?f jtext w1")
        with jobjson_phase_grows [of A w1 E ?rid ?f jtext] g1 have g2: "grows ?n w w2"
          using grows_trans by fastforce
        show ?thesis
        proof (cases p)
          case (Inl e)
          with raw False a jt c g2 show ?thesis by (simp add: score_job_record_with_def)
        next
          case (Inr parsed)
          obtain o1 w3 where e: "scoring_phase E A ?rid parsed (clean_html_to_text E raw) w2 = (o1, w3)"
            by (cases "scoring_phase E A ?rid parsed (clean_html_to_text E raw) w2")
          with scoring_phase_grows [of A w2 E ?rid parsed "clean_html_to_text E raw"] g2
          have "grows ?n w w3" using grows_trans by fastforce
          with raw False a jt c Inr e show ?thesis by (simp add: score_job_record_with_def)
        qed
      qed
    qed
  qed
qed

subsection \<open>The schema-tolerant writer\<close>

lemma call_update_printed [simp]: "printed (snd (call_update E rid p w)) = printed w"
  by (simp add: call_update_def Let_def)

lemma safe_update_calls:
  "\<exists>xs. store_calls (snd (safe_update E A rid p w)) = store_calls w @ xs
      \<and> (\<forall>c \<in> set xs. \<exists>ok.
            c = UpdateRecord (AIRTABLE_TABLE_JOBS E) rid
                  (filter (\<lambda>kv. fst kv \<in> arg_table_field_names A) p) ok
          \<or> c = UpdateRecord (AIRTABLE_TABLE_JOBS E) rid
                  (retry_fields (filter (\<lambda>kv. fst kv \<in> arg_table_field_names A) p)) ok)"
proof -
  let ?names = "arg_table_field_names A"
  let ?f = "filter (\<lambda>kv. fst kv \<in> ?names) p"
  obtain w1 where f: "filter_fields p ?names w = (?f, w1)" and w1: "store_calls w1 = store_calls w"
    by (simp add: filter_fields_eq)
  obtain r w2 where c: "call_update E rid ?f w1 = (r, w2)"
    by (cases "call_update E rid ?f w1")
  with call_update_store [of E rid ?f w1] w1
  have w2: "store_calls w2 = store_calls w @ [UpdateRecord (AIRTABLE_TABLE_JOBS E) rid ?f (r = None)]"
    by simp
  obtain r3 w3 where c3: "call_update E rid (retry_fields ?f) w2 = (r3, w3)"
    by (cases "call_update E rid (retry_fields ?f) w2")
  with call_update_store [of E rid "retry_fields ?f" w2] w2
  have w3: "store_calls w3 = store_calls w @ [UpdateRecord (AIRTABLE_TABLE_JOBS E) rid ?f (r = None),
      UpdateRecord (AIRTABLE_TABLE_JOBS E) rid (retry_fields ?f) (r3 = None)]"
    by simp
  show ?thesis
    by (auto simp: safe_update_def f c c3 w1 w2 w3 split: option.splits)
qed

lemma safe_update_printed:
  "printed (snd (safe_update E A rid p w))
     = printed w @ map (\<lambda>kv. ''FIELD_DROP '' @ fst kv)
                     (filter (\<lambda>kv. fst kv \<notin> arg_table_field_names A) p)"
proof -
  let ?names = "arg_table_field_names A"
  let ?f = "filter (\<lambda>kv. fst kv \<in> ?names) p"
  let ?d = "map (\<lambda>kv. ''FIELD_DROP '' @ fst kv) (filter (\<lambda>kv. fst kv \<notin> ?names) p)"
  obtain w1 where f: "filter_fields p ?names w = (?f, w1)" and w1: "printed w1 = printed w @ ?d"
    by (simp add: filter_fields_eq)
  obtain r w2 where c: "call_update E rid ?f w1 = (r, w2)"
    by (cases "call_update E rid ?f w1")
  with call_update_printed [of E rid ?f w1] w1 have w2: "printed w2 = printed w @ ?d" by simp
  obtain r3 w3 where c3: "call_update E rid (retry_fields ?f) w2 = (r3, w3)"
    by (cases "call_update E rid (retry_fields ?f) w2")
  with call_update_printed [of E rid "retry_fields ?f" w2] w2 have w3: "printed w3 = printed w @ ?d" by simp
  show ?thesis
    by (simp add: safe_update_def f c c3 w1 w2 w3 split: option.splits)
qed

lemma score_all_grows:
  "grows (arg_table_field_names A) w (snd (score_all E A rs st w))"
proof (induction rs arbitrary: st w)
  case Nil
  then show ?case by simp
next
  case (Cons r rs)
  obtain x w1 where a: "score_job_record E A r w = (x, w1)"
    by (cases "score_job_record E A r w")
  with score_job_record_with_grows [of A w CLEAN_MIN_LEN E r]
  have g: "grows (arg_table_field_names A) w w1" by (simp add: score_job_record_def)
  have "grows (arg_table_field_names A) w (snd (score_all E A rs st' w1))" for st'
    using g Cons.IH grows_trans by blast
  with g show ?case
    by (simp add: a split: sum.splits outcome.splits)
qed

lemma grows_from:
  assumes "store_calls w1 = pre @ ys" "list_all (within names) ys" "grows names w1 w2"
  shows "\<exists>xs. store_calls w2 = pre @ xs \<and> list_all (within names) xs"
  using assms by (auto simp: grows_def)

lemma run_scoring_store:
  "\<exists>xs. store_calls (snd (run_scoring E max_jobs dry_run scorer_engine ab_test w))
          = store_calls w @ ListRecords (AIRTABLE_TABLE_JOBS E) 3 None # xs
      \<and> list_all (within static_table_field_names) xs"
proof -
  let ?J = "AIRTABLE_TABLE_JOBS E"
  let ?C = "AIRTABLE_TABLE_CANDIDATE E"
  let ?L = "ListRecords ?J max_jobs (Some filter_formula)"
  define P where "P v = (\<exists>xs. store_calls v = store_calls w @ ListRecords ?J 3 None # xs
      \<and> list_all (within static_table_field_names) xs)" for v :: world
  let ?w1 = "w\<lparr>store_calls := store_calls w @ [ListRecords ?J 3 None]\<rparr>"
  let ?w2 = "w\<lparr>store_calls := store_calls w @ [ListRecords ?J 3 None, FindOne ?C]\<rparr>"
  let ?w3 = "w\<lparr>store_calls := store_calls w @ [ListRecords ?J 3 None, FindOne ?C, ?L]\<rparr>"
  let ?w4 = "w\<lparr>store_calls := store_calls w @ [ListRecords ?J 3 None, FindOne ?C, ?L, ?L]\<rparr>"
  have p1: "P ?w1" and p2: "P ?w2" and p3: "P ?w3" and p4: "P ?w4"
    by (simp_all add: P_def)
  have g: "P v \<Longrightarrow> grows static_table_field_names v v' \<Longrightarrow> P v'" for v v'
    by (auto simp: P_def grows_def)
  have p5: "P (snd (score_all E A recs st ?w3))"
    if "arg_table_field_names A = static_table_field_names" for A recs st
    using g [OF p3] score_all_grows [of A ?w3 E recs st] that by simp
  have p6: "P (snd (score_all E A recs st ?w4))"
    if "arg_table_field_names A = static_table_field_names" for A recs st
    using g [OF p4] score_all_grows [of A ?w4 E recs st] that by simp
  have "P (snd (run_scoring E max_jobs dry_run scorer_engine ab_test w))"
    unfolding run_scoring_def sample_valid_fields_def call_list_records_def call_find_one_def Let_def
    by (simp add: p1 p2 p3 p4 p5 p6 split: sum.splits option.splits json.splits)
  then show ?thesis by (simp add: P_def)
qed

lemma within_updates:
  "list_all (within names) xs \<Longrightarrow> UpdateRecord table rid payload ok \<in> set xs \<Longrightarrow> fst ` set payload \<subseteq> names"
  by (induction xs) force+

text \<open>
  C3. The claim: every outgoing field update is filtered against the live field set
  sampled before any write, so that a field absent from it is dropped and logged. The
  comment of line 457 says the same of \<^verbatim>\<open>safe_update\<close> (it updates fields ``only if they
  exist in valid_fields''), and the comment of line 847 calls the fixed set a fallback.
  The code does not do it: line 460 filters on \<^verbatim>\<open>table_field_names\<close>, to which
  \<^verbatim>\<open>run_scoring\<close> binds the fixed allowlist of line 848, and the sampled \<^verbatim>\<open>valid_fields\<close>
  reaches no filter. Here the three sampled records make the live set \<^verbatim>\<open>{"JobURL"}\<close>; a
  record without a description is marked with \<^verbatim>\<open>Status\<close>, \<^verbatim>\<open>ScoringStatus\<close> and
  \<^verbatim>\<open>SkipReason\<close>, none of which is in the live set: all three are written and no
  \<^verbatim>\<open>FIELD_DROP\<close> line is printed.
\<close>

theorem unsampled_fields_written:
  "fst (sample_valid_fields (example_env ''nope'' example_sample [job_without_description]) ''Jobs'' world0)
     = Inr {''JobURL''}
   \<and> run_scoring (example_env ''nope'' example_sample [job_without_description]) 10 False ''v1'' [] world0
     = (Inr \<lparr>n_total = 1, n_scored = 0, n_skipped = 1, n_errors = 0\<rparr>,
        \<lparr>llm_calls = [],
         store_calls =
           [ListRecords ''Jobs'' 3 None, FindOne ''CandidateProfile'',
            ListRecords ''Jobs'' 10 (Some ''AND(LEN({JobDescriptionRaw})>0, {FitScore}=BLANK())''),
            UpdateRecord ''Jobs'' ''recA''
              [(''Status'', JStr ''Needs JD''), (''ScoringStatus'', JStr ''SKIPPED''),
               (''SkipReason'', JStr ''JobDescriptionRaw empty after stripping. Needs full JD.'')]
              True],
         printed = []\<rparr>)"
  by code_simp

text \<open>
  What the writer filters against is the set it is given, and \<^verbatim>\<open>run_scoring\<close> gives it the
  fixed allowlist: the sampling is the first record-store call of a run, each payload
  field outside \<^verbatim>\<open>table_field_names\<close> is dropped from the write and printed on a
  \<^verbatim>\<open>FIELD_DROP\<close> line of its own, only the remaining fields are written (on a retry, the
  remaining fields without \<^verbatim>\<open>ScoringStatus\<close> and \<^verbatim>\<open>SkipReason\<close>), and every write of a
  run holds fields of the fixed allowlist only.
\<close>

lemma updates_filtered_by_allowlist:
  "filter_fields_to_table payload names =
     (filter (\<lambda>kv. fst kv \<in> names) payload,
      map (\<lambda>kv. ''FIELD_DROP '' @ fst kv) (filter (\<lambda>kv. fst kv \<notin> names) payload))
   \<and> (\<exists>xs. store_calls (snd (safe_update E A record_id payload w)) = store_calls w @ xs
        \<and> (\<forall>c \<in> set xs. \<exists>ok.
              c = UpdateRecord (AIRTABLE_TABLE_JOBS E) record_id
                    (filter (\<lambda>kv. fst kv \<in> arg_table_field_names A) payload) ok
            \<or> c = UpdateRecord (AIRTABLE_TABLE_JOBS E) record_id
                    (retry_fields (filter (\<lambda>kv. fst kv \<in> arg_table_field_names A) payload)) ok))
   \<and> printed (snd (safe_update E A record_id payload w))
       = printed w @ map (\<lambda>kv. ''FIELD_DROP '' @ fst kv)
                       (filter (\<lambda>kv. fst kv \<notin> arg_table_field_names A) payload)
   \<and> (\<exists>xs. store_calls (snd (run_scoring E max_jobs dry_run scorer_engine ab_test world0))
              = ListRecords (AIRTABLE_TABLE_JOBS E) 3 None # xs
        \<and> (\<forall>table rid written ok. UpdateRecord table rid written ok \<in> set xs \<longrightarrow>
              fst ` set written \<subseteq> static_table_field_names))"
proof -
  from run_scoring_store [of E max_jobs dry_run scorer_engine ab_test world0]
  obtain xs where xs: "store_calls (snd (run_scoring E max_jobs dry_run scorer_engine ab_test world0))
          = ListRecords (AIRTABLE_TABLE_JOBS E) 3 None # xs"
      "list_all (within static_table_field_names) xs"
    by (auto simp: world0_def)
  have "\<forall>table rid written ok. UpdateRecord table rid written ok \<in> set xs \<longrightarrow>
              fst ` set written \<subseteq> static_table_field_names"
    using within_updates [OF xs(2)] by blast
  with xs(1) have r: "\<exists>xs. store_calls (snd (run_scoring E max_jobs dry_run scorer_engine ab_test world0))
              = ListRecords (AIRTABLE_TABLE_JOBS E) 3 None # xs
        \<and> (\<forall>table rid written ok. UpdateRecord table rid written ok \<in> set xs \<longrightarrow>
              fst ` set written \<subseteq> static_table_field_names)"
    by blast
  show ?thesis
    using filter_fields_to_table_eq [of payload names] safe_update_calls [of E A record_id payload w]
      safe_update_printed [of E A record_id payload w] r
    by blast
qed

lemma updates_filtered_by_allowlist_example:
  "filter_fields_to_table [(''FitScore'', JInt 4), (''Mood'', JStr ''fine''), (''ScoringStatus'', JStr ''SCORED'')]
     static_table_field_names
   = ([(''FitScore'', JInt 4), (''ScoringStatus'', JStr ''SCORED'')], [''FIELD_DROP Mood''])"
  using updates_filtered_by_allowlist
    [of "[(''FitScore'', JInt 4), (''Mood'', JStr ''fine''), (''ScoringStatus'', JStr ''SCORED'')]"
        static_table_field_names]
  by (simp add: static_table_field_names_def)

subsection \<open>Cached structured fields\<close>







subsection \<open>The minimum-length note\<close>









subsection \<open>The retry of an invalid response\<close>

lemma invalid_score_cases:
  "invalid_score score = Inr True \<longleftrightarrow>
     \<not> py_truthy score \<or> (\<exists>d. score = JDict d \<and> \<not> required_keys \<subseteq> fst ` set d)"
  by (auto simp: invalid_score_def split: json.splits)

lemma retry_discipline:
  assumes "load_scorer_prompt E scorer_engine = Inr prompt"
    and "py_subscript scorer_input ''runtime'' = Inr runtime"
    and "py_subscript runtime ''model'' = Inr model"
    and "py_subscript runtime ''temperature'' = Inr temperature"
    and "request_json E (length (llm_calls w)) model
           (prompt @ ''\<newline>\<newline>INPUT_JSON:\<newline>'' @ json_dumps E scorer_input) = Inr t1"
  shows "invalid_score (safe_parse_json E t1) = Inr False \<Longrightarrow>
           run_single_scorer E scorer_engine scorer_input w =
             (score_to_result E scorer_engine (safe_parse_json E t1),
              w\<lparr>llm_calls := llm_calls w
                   @ [(Scorer, model, prompt @ ''\<newline>\<newline>INPUT_JSON:\<newline>'' @ json_dumps E scorer_input)]\<rparr>)"
    and "invalid_score (safe_parse_json E t1) = Inr True \<Longrightarrow>
         request_json E (Suc (length (llm_calls w))) model
           (prompt @ ''\<newline>\<newline>INPUT_JSON:\<newline>'' @ json_dumps E scorer_input @ strict_suffix) = Inr t2 \<Longrightarrow>
         invalid_score (safe_parse_json E t2) = Inr True \<Longrightarrow>
           run_single_scorer E scorer_engine scorer_input w =
             (Inr (InvalidModelOutput scorer_engine),
              w\<lparr>llm_calls := llm_calls w
                   @ [(Scorer, model, prompt @ ''\<newline>\<newline>INPUT_JSON:\<newline>'' @ json_dumps E scorer_input),
                      (Scorer, model, prompt @ ''\<newline>\<newline>INPUT_JSON:\<newline>'' @ json_dumps E scorer_input
                                        @ strict_suffix)]\<rparr>)"
    and "invalid_score (safe_parse_json E t1) = Inr True \<Longrightarrow>
         request_json E (Suc (length (llm_calls w))) model
           (prompt @ ''\<newline>\<newline>INPUT_JSON:\<newline>'' @ json_dumps E scorer_input @ strict_suffix) = Inr t2 \<Longrightarrow>
         invalid_score (safe_parse_json E t2) = Inr False \<Longrightarrow>
           run_single_scorer E scorer_engine scorer_input w =
             (score_to_result E scorer_engine (safe_parse_json E t2),
              w\<lparr>llm_calls := llm_calls w
                   @ [(Scorer, model, prompt @ ''\<newline>\<newline>INPUT_JSON:\<newline>'' @ json_dumps E scorer_input),
                      (Scorer, model, prompt @ ''\<newline>\<newline>INPUT_JSON:\<newline>'' @ json_dumps E scorer_input
                                        @ strict_suffix)]\<rparr>)"
  using assms by (simp_all add: run_single_scorer_def call_llm_def Let_def)

text \<open>
  C7. The claim: a first response that cannot be parsed or lacks a required key is asked
  for once more, with the strict instruction appended. The code does so when the parsed
  response is a false value or a dictionary (lemma \<^verbatim>\<open>retry_discipline\<close>). A response that
  is valid JSON but no object is returned as it is by \<^verbatim>\<open>safe_parse_json\<close>, whose first
  branch returns whatever \<^verbatim>\<open>json.loads\<close> gives (only its second branch wraps a list
  under \<^verbatim>\<open>"_list"\<close> ``to keep our return type stable''); the test of line 250 then calls
  \<^verbatim>\<open>keys()\<close> on a list. The response \<^verbatim>\<open>[1]\<close> lacks every required key, yet
  \<^verbatim>\<open>run_single_scorer\<close> raises \<^verbatim>\<open>AttributeError\<close> after its first call of the model: there
  is no second call and no error result.
\<close>

theorem list_response_not_retried:
  "safe_parse_json (example_env ''[1]'' [] []) ''[1]'' = JList [JInt 1]
   \<and> fst (run_single_scorer (example_env ''[1]'' [] []) ''v1'' example_scorer_input world0)
       = Inl AttributeError
   \<and> map fst (llm_calls (snd (run_single_scorer (example_env ''[1]'' [] []) ''v1''
                                  example_scorer_input world0))) = [Scorer]"
  by code_simp

subsection \<open>Configuration errors of a run\<close>

lemma unknown_engine_raises:
  "\<not> known_engine e \<Longrightarrow> run_single_scorer E e si w = (Inl ValueError, w)"
  by (simp add: run_single_scorer_def load_scorer_prompt_def known_engine_def)

lemma run_engines_unknown:
  assumes "e \<in> set es" "\<not> known_engine e"
  shows "\<exists>x. fst (run_engines E es si rs w) = Inl x"
  using assms(1)
proof (induction es arbitrary: rs w)
  case Nil
  then show ?case by simp
next
  case (Cons a es)
  show ?case
  proof (cases "a = e")
    case True
    with assms(2) show ?thesis by (simp add: unknown_engine_raises)
  next
    case False
    with Cons.prems have e: "e \<in> set es" by simp
    obtain x w1 where a: "run_single_scorer E a si w = (x, w1)"
      by (cases "run_single_scorer E a si w")
    show ?thesis
      using Cons.IH [OF e] by (simp add: a split: sum.splits single_result.splits)
  qed
qed

lemma run_scorers_unknown:
  assumes "list_ex (\<lambda>e. \<not> known_engine e) (active_engines (arg_scorer_engine A) (arg_ab_test A))"
  shows "\<exists>x. fst (run_scorers E A si w) = Inl x"
proof (cases "arg_ab_test A = []")
  case True
  with assms have "\<not> known_engine (arg_scorer_engine A)"
    by (simp add: active_engines_def)
  with True show ?thesis
    by (simp add: run_scorers_def unknown_engine_raises)
next
  case False
  with assms obtain e where e: "e \<in> set (arg_ab_test A)" "\<not> known_engine e"
    by (auto simp: active_engines_def list_ex_iff)
  from run_engines_unknown [OF e, of E si "[]" w]
  obtain x where x: "fst (run_engines E (arg_ab_test A) si [] w) = Inl x" by blast
  obtain y w1 where y: "run_engines E (arg_ab_test A) si [] w = (y, w1)"
    by (cases "run_engines E (arg_ab_test A) si [] w")
  with x have "y = Inl x" by simp
  with False y show ?thesis
    by (simp add: run_scorers_def)
qed

lemma scoring_phase_unknown:
  assumes "list_ex (\<lambda>e. \<not> known_engine e) (active_engines (arg_scorer_engine A) (arg_ab_test A))"
  shows "\<exists>reason. fst (scoring_phase E A rid parsed cleaned w) = Failed reason"
proof -
  let ?si = "scorer_input_of E A parsed cleaned"
  let ?w1 = "write_parsed_fields E A rid parsed w"
  from run_scorers_unknown [OF assms, of E ?si ?w1]
  obtain x where x: "fst (run_scorers E A ?si ?w1) = Inl x" by blast
  obtain y w2 where y: "run_scorers E A ?si ?w1 = (y, w2)"
    by (cases "run_scorers E A ?si ?w1")
  with x have "y = Inl x" by simp
  with y show ?thesis
    by (simp add: scoring_phase_def Let_def)
qed

lemma score_job_record_unknown:
  assumes "list_ex (\<lambda>e. \<not> known_engine e) (active_engines (arg_scorer_engine A) (arg_ab_test A))"
  shows "fst (score_job_record_with m E A r w) \<noteq> Inr (Scored fit act)"
proof -
  have "fst (scoring_phase E A rid parsed cleaned w') \<noteq> Scored fit act" for rid parsed cleaned w'
    using scoring_phase_unknown [OF assms, of E rid parsed cleaned w'] by auto
  then have "scoring_phase E A rid parsed cleaned w' \<noteq> (Scored fit act, w3)" for rid parsed cleaned w' w3
    by (metis fst_conv)
  then show ?thesis
    by (auto simp: score_job_record_with_def split: prod.splits sum.splits)
qed

lemma score_all_unknown:
  assumes "list_ex (\<lambda>e. \<not> known_engine e) (active_engines (arg_scorer_engine A) (arg_ab_test A))"
  shows "score_all E A rs st w = (Inr st', w') \<Longrightarrow> n_scored st' = n_scored st"
proof (induction rs arbitrary: st w)
  case Nil
  then show ?case by simp
next
  case (Cons r rs)
  obtain x w1 where a: "score_job_record E A r w = (x, w1)"
    by (cases "score_job_record E A r w")
  have ns: "x \<noteq> Inr (Scored fit act)" for fit act
    using score_job_record_unknown [OF assms, of CLEAN_MIN_LEN E r w fit act] a
    by (simp add: score_job_record_def)
  show ?case
  proof (cases x)
    case (Inl e)
    with Cons.prems a show ?thesis by simp
  next
    case (Inr out)
    show ?thesis
    proof (cases out)
      case (Scored fit act)
      with Inr ns show ?thesis by simp
    next
      case (Skipped reason)
      with Inr a Cons.prems
      have "score_all E A rs (st\<lparr>n_skipped := n_skipped st + 1\<rparr>) w1 = (Inr st', w')" by simp
      from Cons.IH [OF this] show ?thesis by simp
    next
      case (Failed reason)
      with Inr a Cons.prems
      have "score_all E A rs (st\<lparr>n_errors := n_errors st + 1\<rparr>) w1 = (Inr st', w')" by simp
      from Cons.IH [OF this] show ?thesis by simp
    qed
  qed
qed

lemma run_scoring_no_profile:
  assumes "list_records E (n_lists w) (AIRTABLE_TABLE_JOBS E) 3 None = Inr sampled"
    and "find_one E (AIRTABLE_TABLE_CANDIDATE E) = Inr None"
  shows "run_scoring E max_jobs dry_run scorer_engine ab_test w =
     (Inl RuntimeError,
      w\<lparr>store_calls := store_calls w @ [ListRecords (AIRTABLE_TABLE_JOBS E) 3 None,
                                          FindOne (AIRTABLE_TABLE_CANDIDATE E)]\<rparr>)"
  using assms
  by (simp add: run_scoring_def sample_valid_fields_def call_list_records_def call_find_one_def)

lemma run_scoring_bad_profile:
  assumes "list_records E (n_lists w) (AIRTABLE_TABLE_JOBS E) 3 None = Inr sampled"
    and "find_one E (AIRTABLE_TABLE_CANDIDATE E) = Inr (Some c)"
    and "\<not> py_truthy (dict_get (rec_fields c) ''CandidateJSON'')
         \<or> (\<exists>s. dict_get (rec_fields c) ''CandidateJSON'' = JStr s \<and> json_loads E s = None)"
  shows "run_scoring E max_jobs dry_run scorer_engine ab_test w =
     (Inr \<lparr>n_total = 0, n_scored = 0, n_skipped = 0, n_errors = 1\<rparr>,
      w\<lparr>store_calls := store_calls w @ [ListRecords (AIRTABLE_TABLE_JOBS E) 3 None,
                                          FindOne (AIRTABLE_TABLE_CANDIDATE E)]\<rparr>)"
  using assms
  by (auto simp: run_scoring_def sample_valid_fields_def call_list_records_def call_find_one_def Let_def)

lemma run_scoring_unknown:
  assumes "list_ex (\<lambda>e. \<not> known_engine e) (active_engines scorer_engine ab_test)"
    and "run_scoring E max_jobs dry_run scorer_engine ab_test w = (Inr st, w')"
  shows "n_scored st = 0"
proof -
  have k: "n_scored st' = 0"
    if "score_all E A rs \<lparr>n_total = n, n_scored = 0, n_skipped = 0, n_errors = 0\<rparr> v = (Inr st', v')"
      "arg_scorer_engine A = scorer_engine" "arg_ab_test A = ab_test" for A rs n v st' v'
    using score_all_unknown [of A E rs _ v st' v'] that assms(1) by simp
  show ?thesis
    using assms(2)
    unfolding run_scoring_def sample_valid_fields_def call_list_records_def call_find_one_def Let_def
    by (auto split: sum.splits option.splits json.splits if_splits dest!: k)
qed

lemma run_scoring_enters_loop:
  assumes "list_records E 0 (AIRTABLE_TABLE_JOBS E) 3 None = Inr sampled"
    and "find_one E (AIRTABLE_TABLE_CANDIDATE E) = Inr (Some c)"
    and "dict_get (rec_fields c) ''CandidateJSON'' = JStr cs" "cs \<noteq> []"
    and "json_loads E cs = Some cand"
    and "list_records E 1 (AIRTABLE_TABLE_JOBS E) max_jobs (Some filter_formula) = Inr recs"
  shows "\<exists>A. arg_scorer_engine A = scorer_engine \<and> arg_ab_test A = ab_test
            \<and> arg_dry_run A = dry_run \<and> arg_candidate A = cand
            \<and> run_scoring E max_jobs dry_run scorer_engine ab_test world0 =
                score_all E A recs
                  \<lparr>n_total = length recs, n_scored = 0, n_skipped = 0, n_errors = 0\<rparr>
                  \<lparr>llm_calls = [],
                   store_calls = [ListRecords (AIRTABLE_TABLE_JOBS E) 3 None,
                                  FindOne (AIRTABLE_TABLE_CANDIDATE E),
                                  ListRecords (AIRTABLE_TABLE_JOBS E) max_jobs (Some filter_formula)],
                   printed = []\<rparr>"
proof -
  let ?A = "\<lparr>arg_dry_run = dry_run,
             arg_table_field_names = static_table_field_names,
             arg_valid_fields = fold (\<lambda>r valid_fields. valid_fields \<union> fst ` set (rec_fields r)) sampled {},
             arg_scorer_engine = scorer_engine,
             arg_ab_test = ab_test,
             arg_run_id = generate_run_id E,
             arg_candidate = cand\<rparr>"
  have "run_scoring E max_jobs dry_run scorer_engine ab_test world0 =
                score_all E ?A recs
                  \<lparr>n_total = length recs, n_scored = 0, n_skipped = 0, n_errors = 0\<rparr>
                  \<lparr>llm_calls = [],
                   store_calls = [ListRecords (AIRTABLE_TABLE_JOBS E) 3 None,
                                  FindOne (AIRTABLE_TABLE_CANDIDATE E),
                                  ListRecords (AIRTABLE_TABLE_JOBS E) max_jobs (Some filter_formula)],
                   printed = []\<rparr>"
    using assms
    by (simp add: run_scoring_def sample_valid_fields_def call_list_records_def call_find_one_def
        n_lists_def world0_def)
  then show ?thesis
    by (intro exI [of _ ?A]) simp
qed

text \<open>
  C5, as stated, fails for the unknown engine name: \<^verbatim>\<open>run_scoring\<close> loads the prompts at
  its start only to print their hashes, inside a handler that prints a warning (lines 833
  to 840), and goes on. With the engine name \<^verbatim>\<open>bogus\<close> the run fetches the job records,
  processes the one there is, counts it as an error and writes the failure onto it.
\<close>

theorem unknown_engine_run_continues:
  "\<not> known_engine ''bogus''
   \<and> run_scoring (example_env ''nope'' example_sample [job_cached json_a]) 10 False ''bogus'' [] world0
     = (Inr \<lparr>n_total = 1, n_scored = 0, n_skipped = 0, n_errors = 1\<rparr>,
        \<lparr>llm_calls = [],
         store_calls =
           [ListRecords ''Jobs'' 3 None, FindOne ''CandidateProfile'',
            ListRecords ''Jobs'' 10 (Some ''AND(LEN({JobDescriptionRaw})>0, {FitScore}=BLANK())''),
            UpdateRecord ''Jobs'' ''recD''
              [(''ScoringStatus'', JStr ''FAILED''),
               (''SkipReason'', JStr ''Scoring error: Unknown scorer engine: bogus'')]
              True],
         printed = []\<rparr>)"
  by code_simp

text \<open>
  C5, amended: when the schema sample has been read and the candidate truth profile is
  missing, the run aborts with an exception; when the profile's \<^verbatim>\<open>CandidateJSON\<close> is
  empty, absent or not valid JSON, the run returns with one error; in both cases no job
  record has been fetched for scoring, no model has been called and nothing has been
  written (the record store has seen the three-record sample and the profile lookup
  only). An unknown scorer engine name handed to \<^verbatim>\<open>run_scoring\<close>, alone or in the A/B
  list, does not abort the run: with a valid profile the job records are fetched and
  the loop over them is entered as for a known name; no record is scored then, neither
  by \<^verbatim>\<open>score_job_record\<close> nor in the statistics of a run that returns. (The command line
  of \<^verbatim>\<open>main\<close> refuses an unknown \<^verbatim>\<open>--scorer-engine\<close> before \<^verbatim>\<open>run_scoring\<close> is called; it
  does not check the names of \<^verbatim>\<open>--ab-test\<close>.)
\<close>

theorem configuration_errors:
  assumes "list_records E 0 (AIRTABLE_TABLE_JOBS E) 3 None = Inr sampled"
  shows "(find_one E (AIRTABLE_TABLE_CANDIDATE E) = Inr None \<longrightarrow>
            run_scoring E max_jobs dry_run scorer_engine ab_test world0 =
              (Inl RuntimeError,
               \<lparr>llm_calls = [],
                store_calls = [ListRecords (AIRTABLE_TABLE_JOBS E) 3 None,
                               FindOne (AIRTABLE_TABLE_CANDIDATE E)],
                printed = []\<rparr>))
       \<and> (\<forall>c. find_one E (AIRTABLE_TABLE_CANDIDATE E) = Inr (Some c) \<longrightarrow>
              (\<not> py_truthy (dict_get (rec_fields c) ''CandidateJSON'')
                \<or> (\<exists>s. dict_get (rec_fields c) ''CandidateJSON'' = JStr s \<and> json_loads E s = None)) \<longrightarrow>
              run_scoring E max_jobs dry_run scorer_engine ab_test world0 =
                (Inr \<lparr>n_total = 0, n_scored = 0, n_skipped = 0, n_errors = 1\<rparr>,
                 \<lparr>llm_calls = [],
                  store_calls = [ListRecords (AIRTABLE_TABLE_JOBS E) 3 None,
                                 FindOne (AIRTABLE_TABLE_CANDIDATE E)],
                  printed = []\<rparr>))
       \<and> (\<forall>c cs cand recs.
              find_one E (AIRTABLE_TABLE_CANDIDATE E) = Inr (Some c) \<longrightarrow>
              dict_get (rec_fields c) ''CandidateJSON'' = JStr cs \<longrightarrow> cs \<noteq> [] \<longrightarrow>
              json_loads E cs = Some cand \<longrightarrow>
              list_records E 1 (AIRTABLE_TABLE_JOBS E) max_jobs (Some filter_formula) = Inr recs \<longrightarrow>
              (\<exists>A. arg_scorer_engine A = scorer_engine \<and> arg_ab_test A = ab_test
                  \<and> arg_dry_run A = dry_run \<and> arg_candidate A = cand
                  \<and> run_scoring E max_jobs dry_run scorer_engine ab_test world0 =
                      score_all E A recs
                        \<lparr>n_total = length recs, n_scored = 0, n_skipped = 0, n_errors = 0\<rparr>
                        \<lparr>llm_calls = [],
                         store_calls = [ListRecords (AIRTABLE_TABLE_JOBS E) 3 None,
                                        FindOne (AIRTABLE_TABLE_CANDIDATE E),
                                        ListRecords (AIRTABLE_TABLE_JOBS E) max_jobs (Some filter_formula)],
                         printed = []\<rparr>))
       \<and> (\<forall>st w'. list_ex (\<lambda>e. \<not> known_engine e) (active_engines scorer_engine ab_test) \<longrightarrow>
              run_scoring E max_jobs dry_run scorer_engine ab_test world0 = (Inr st, w') \<longrightarrow>
              n_scored st = 0)
       \<and> (\<forall>A r w fit act.
              list_ex (\<lambda>e. \<not> known_engine e) (active_engines (arg_scorer_engine A) (arg_ab_test A)) \<longrightarrow>
              fst (score_job_record E A r w) \<noteq> Inr (Scored fit act))"
proof -
  have s: "list_records E (n_lists world0) (AIRTABLE_TABLE_JOBS E) 3 None = Inr sampled"
    using assms by (simp add: n_lists_def world0_def)
  have a: "find_one E (AIRTABLE_TABLE_CANDIDATE E) = Inr None \<longrightarrow>
            run_scoring E max_jobs dry_run scorer_engine ab_test world0 =
              (Inl RuntimeError,
               \<lparr>llm_calls = [],
                store_calls = [ListRecords (AIRTABLE_TABLE_JOBS E) 3 None,
                               FindOne (AIRTABLE_TABLE_CANDIDATE E)],
                printed = []\<rparr>)"
    using run_scoring_no_profile [OF s, of max_jobs dry_run scorer_engine ab_test]
    by (simp add: world0_def)
  have b: "\<forall>c. find_one E (AIRTABLE_TABLE_CANDIDATE E) = Inr (Some c) \<longrightarrow>
              (\<not> py_truthy (dict_get (rec_fields c) ''CandidateJSON'')
                \<or> (\<exists>s. dict_get (rec_fields c) ''CandidateJSON'' = JStr s \<and> json_loads E s = None)) \<longrightarrow>
              run_scoring E max_jobs dry_run scorer_engine ab_test world0 =
                (Inr \<lparr>n_total = 0, n_scored = 0, n_skipped = 0, n_errors = 1\<rparr>,
                 \<lparr>llm_calls = [],
                  store_calls = [ListRecords (AIRTABLE_TABLE_JOBS E) 3 None,
                                 FindOne (AIRTABLE_TABLE_CANDIDATE E)],
                  printed = []\<rparr>)"
  proof (intro allI impI)
    fix c
    assume f: "find_one E (AIRTABLE_TABLE_CANDIDATE E) = Inr (Some c)"
      and j: "\<not> py_truthy (dict_get (rec_fields c) ''CandidateJSON'')
                \<or> (\<exists>s. dict_get (rec_fields c) ''CandidateJSON'' = JStr s \<and> json_loads E s = None)"
    from run_scoring_bad_profile [OF s f j, of max_jobs dry_run scorer_engine ab_test]
    show "run_scoring E max_jobs dry_run scorer_engine ab_test world0 =
                (Inr \<lparr>n_total = 0, n_scored = 0, n_skipped = 0, n_errors = 1\<rparr>,
                 \<lparr>llm_calls = [],
                  store_calls = [ListRecords (AIRTABLE_TABLE_JOBS E) 3 None,
                                 FindOne (AIRTABLE_TABLE_CANDIDATE E)],
                  printed = []\<rparr>)"
      by (simp add: world0_def)
  qed
  have e: "\<forall>c cs cand recs.
              find_one E (AIRTABLE_TABLE_CANDIDATE E) = Inr (Some c) \<longrightarrow>
              dict_get (rec_fields c) ''CandidateJSON'' = JStr cs \<longrightarrow> cs \<noteq> [] \<longrightarrow>
              json_loads E cs = Some cand \<longrightarrow>
              list_records E 1 (AIRTABLE_TABLE_JOBS E) max_jobs (Some filter_formula) = Inr recs \<longrightarrow>
              (\<exists>A. arg_scorer_engine A = scorer_engine \<and> arg_ab_test A = ab_test
                  \<and> arg_dry_run A = dry_run \<and> arg_candidate A = cand
                  \<and> run_scoring E max_jobs dry_run scorer_engine ab_test world0 =
                      score_all E A recs
                        \<lparr>n_total = length recs, n_scored = 0, n_skipped = 0, n_errors = 0\<rparr>
                        \<lparr>llm_calls = [],
                         store_calls = [ListRecords (AIRTABLE_TABLE_JOBS E) 3 None,
                                        FindOne (AIRTABLE_TABLE_CANDIDATE E),
                                        ListRecords (AIRTABLE_TABLE_JOBS E) max_jobs (Some filter_formula)],
                         printed = []\<rparr>)"
    using run_scoring_enters_loop [OF assms] by blast
  have c: "\<forall>st w'. list_ex (\<lambda>e. \<not> known_engine e) (active_engines scorer_engine ab_test) \<longrightarrow>
              run_scoring E max_jobs dry_run scorer_engine ab_test world0 = (Inr st, w') \<longrightarrow>
              n_scored st = 0"
    using run_scoring_unknown by blast
  have d: "\<forall>A r w fit act.
              list_ex (\<lambda>e. \<not> known_engine e) (active_engines (arg_scorer_engine A) (arg_ab_test A)) \<longrightarrow>
              fst (score_job_record E A r w) \<noteq> Inr (Scored fit act)"
    using score_job_record_unknown by (simp add: score_job_record_def)
  from a b e c d show ?thesis by blast
qed

theorem configuration_errors_witness:
  "list_records no_profile_env 0 (AIRTABLE_TABLE_JOBS no_profile_env) 3 None = Inr example_sample
   \<and> find_one no_profile_env (AIRTABLE_TABLE_CANDIDATE no_profile_env) = Inr None
   \<and> run_scoring no_profile_env 10 False ''v1'' [] world0 =
       (Inl RuntimeError,
        \<lparr>llm_calls = [],
         store_calls = [ListRecords ''Jobs'' 3 None, FindOne ''CandidateProfile''],
         printed = []\<rparr>)"
proof -
  have l: "list_records no_profile_env 0 (AIRTABLE_TABLE_JOBS no_profile_env) 3 None = Inr example_sample"
    by (simp add: no_profile_env_def example_env_def)
  have f: "find_one no_profile_env (AIRTABLE_TABLE_CANDIDATE no_profile_env) = Inr None"
    by (simp add: no_profile_env_def)
  have t: "AIRTABLE_TABLE_JOBS no_profile_env = ''Jobs''"
    "AIRTABLE_TABLE_CANDIDATE no_profile_env = ''CandidateProfile''"
    by (simp_all add: no_profile_env_def example_env_def)
  from configuration_errors [OF l, of 10 False "''v1''" "[]"] f l show ?thesis
    by (simp add: t)
qed

end
